theory Spec2Isabelle
  imports Main "HOL-Library.Sublist"
begin

section \<open>Data model (models/schemas.py)\<close>

text \<open>
  The pydantic models are records. A Python \<open>str\<close> is a \<open>string\<close>, one \<open>char\<close> per
  character; \<open>Optional[T]\<close> is \<open>T option\<close>. \<open>model_dump()\<close> turns a model into the
  dict with the same fields and the constructor applied to such a dict gives the model
  back, so a model and its dict are the same record here.
\<close>

record Source =
  document_name :: string
  page_number :: int
  content_snippet :: string

record ChatResponse =
  response :: string
  sources :: "Source list option"
  conversation_id :: "string option"
  user_message :: string

record DocumentInfo =
  doc_id :: string
  filename :: string
  document_type :: string
  upload_date :: nat
  total_pages :: "int option"
  status :: string
  embedding_status :: string
  error :: "string option"

text \<open>Every \<open>raise\<close> of the code and of its libraries is a value; the string is \<open>str(e)\<close>.\<close>

datatype exception =
    Exception string
  | ValueError string
  | TypeError string
  | JSONDecodeError string
  | OSError string

fun str :: "exception \<Rightarrow> string" where
  "str (Exception m) = m"
| "str (ValueError m) = m"
| "str (TypeError m) = m"
| "str (JSONDecodeError m) = m"
| "str (OSError m) = m"

section \<open>Chat service (services/chat_service.py)\<close>

subsection \<open>Values the service handles\<close>

datatype json =
    JNull
  | JBool bool
  | JInt int
  | JString string
  | JArray "json list"
  | JObject "(string \<times> json) list"

text \<open>
  An entry of a session's \<open>history\<close> and of the prompt: one of the three langchain message
  objects, or a plain JSON value (what \<open>json.load\<close> gives for a history entry read back
  from disk).
\<close>

datatype message =
    SystemMessage string
  | HumanMessage string
  | AIMessage string
  | Plain json

text \<open>
  A chunk returned by the index: its text and the two metadata keys the service reads with
  \<open>metadata.get\<close>; \<open>None\<close> is an absent key.
\<close>

record Document =
  page_content :: string
  meta_document_name :: "string option"
  meta_page_number :: "int option"

text \<open>The index handle: a \<open>Chroma\<close> object is determined by its persist directory.\<close>

datatype vectorstore = Chroma string

text \<open>The session dict, keys \<open>id\<close>, \<open>vectorstore\<close>, \<open>history\<close>, \<open>messages\<close>.\<close>

record conversation =
  conv_id :: string
  conv_vectorstore :: vectorstore
  history :: "message list"
  messages :: "ChatResponse list"

text \<open>
  A file of the conversations directory: either the complete JSON document that
  \<open>json.dump\<close> wrote (the session without its \<open>vectorstore\<close>), or text that
  \<open>json.load\<close> rejects.
\<close>

record stored_conversation =
  stored_id :: string
  stored_history :: "json list"
  stored_messages :: "ChatResponse list"

datatype disk_file = Json stored_conversation | Truncated

type_synonym directory = "(string \<times> disk_file) list"

text \<open>
  What one item of \<open>llm.astream\<close> is: a chunk with a \<open>content\<close> attribute, or an object
  without one.
\<close>

datatype chunk = AIMessageChunk string | NoContent

text \<open>
  The collaborators of the service. \<open>uuid4 n\<close> is the \<open>n\<close>-th value \<open>str(uuid4())\<close>
  returns in the life of the process; \<open>Chroma_init\<close> is the outcome of constructing an index
  handle; \<open>similarity_search\<close> is the index query; \<open>astream\<close> gives the chunks the model
  yields for a prompt and, after them, the exception that ends the iteration, if any;
  \<open>open_w name\<close> says whether \<open>open(filepath, 'w')\<close> succeeds for that file name.
\<close>

record env =
  uuid4 :: "nat \<Rightarrow> string"
  Chroma_init :: "string \<Rightarrow> exception + vectorstore"
  similarity_search :: "vectorstore \<Rightarrow> string \<Rightarrow> nat \<Rightarrow> exception + Document list"
  astream :: "message list \<Rightarrow> chunk list \<times> exception option"
  open_w :: "string \<Rightarrow> bool"

text \<open>
  The service object: \<open>self.conversations\<close>, the files of \<open>self.conversations_dir\<close> (paths
  relative to it, in listing order), and the number of uuids drawn so far.
\<close>

record ChatService =
  db_directory :: string
  conversations :: "string \<rightharpoonup> conversation"
  conversations_dir :: directory
  uuids_drawn :: nat

text \<open>One line of the response stream, before \<open>json.dumps\<close>.\<close>

record event =
  ev_response :: string
  ev_sources :: "Source list"
  ev_conversation_id :: string
  ev_user_message :: string

subsection \<open>Files\<close>

definition endswith :: "string \<Rightarrow> string \<Rightarrow> bool" where
  "endswith s suf = suffix suf s"

fun write_file :: "directory \<Rightarrow> string \<Rightarrow> disk_file \<Rightarrow> directory" where
  "write_file [] name c = [(name, c)]"
| "write_file ((n, d) # fs) name c =
     (if n = name then (n, c) # fs else (n, d) # write_file fs name c)"

text \<open>\<open>os.listdir\<close>: the entries directly in the directory.\<close>

definition listdir :: "directory \<Rightarrow> (string \<times> disk_file) list" where
  "listdir d = filter (\<lambda>(n, c). CHR ''/'' \<notin> set n) d"

text \<open>
  \<open>json.dump\<close> of a history entry: a plain JSON value is written, a message object raises
  \<open>TypeError\<close> (it is not JSON serializable).
\<close>

fun to_json :: "message \<Rightarrow> json option" where
  "to_json (Plain j) = Some j"
| "to_json (SystemMessage c) = None"
| "to_json (HumanMessage c) = None"
| "to_json (AIMessage c) = None"

text \<open>
  \<open>_load_conversations\<close>: the loop over the listing. A file that does not end in
  \<open>.json\<close> is passed over; one whose load raises (invalid JSON, or the index handle
  cannot be made) is reported and skipped; the others are entered under the file name
  without its last five characters.
\<close>

definition load_file :: "env \<Rightarrow> string \<Rightarrow> disk_file \<Rightarrow> exception + conversation" where
  "load_file e db f =
     (case f of
        Truncated \<Rightarrow> Inl (JSONDecodeError ''Expecting value'')
      | Json d \<Rightarrow>
          (case Chroma_init e db of
             Inl x \<Rightarrow> Inl x
           | Inr vs \<Rightarrow>
               Inr \<lparr>conv_id = stored_id d, conv_vectorstore = vs,
                    history = map Plain (stored_history d),
                    messages = stored_messages d\<rparr>))"

fun load_loop ::
  "env \<Rightarrow> string \<Rightarrow> (string \<times> disk_file) list \<Rightarrow> (string \<rightharpoonup> conversation)
     \<Rightarrow> (string \<rightharpoonup> conversation)" where
  "load_loop e db [] convs = convs"
| "load_loop e db ((name, f) # rest) convs =
     (if endswith name ''.json''
      then (case load_file e db f of
              Inl x \<Rightarrow> load_loop e db rest convs
            | Inr c \<Rightarrow> load_loop e db rest (convs(take (length name - 5) name \<mapsto> c)))
      else load_loop e db rest convs)"

definition load_conversations :: "env \<Rightarrow> string \<Rightarrow> directory \<Rightarrow> (string \<rightharpoonup> conversation)" where
  "load_conversations e db dir = load_loop e db (listdir dir) Map.empty"

text \<open>
  \<open>_save_conversation\<close>. Nothing happens for an unknown id. \<open>open\<close> may raise, which is
  caught and reported. Once the file is open for writing its old content is gone; if
  \<open>json.dump\<close> raises on the history, what is left is not a JSON document, and the
  exception is caught and reported as well.
\<close>

definition save_conversation :: "env \<Rightarrow> string \<Rightarrow> ChatService \<Rightarrow> ChatService" where
  "save_conversation e cid svc =
     (case conversations svc cid of
        None \<Rightarrow> svc
      | Some conv \<Rightarrow>
          (if \<not> open_w e (cid @ ''.json'') then svc
           else (case those (map to_json (history conv)) of
                   None \<Rightarrow>
                     svc\<lparr>conversations_dir :=
                           write_file (conversations_dir svc) (cid @ ''.json'') Truncated\<rparr>
                 | Some js \<Rightarrow>
                     svc\<lparr>conversations_dir :=
                           write_file (conversations_dir svc) (cid @ ''.json'')
                             (Json \<lparr>stored_id = conv_id conv, stored_history = js,
                                    stored_messages = messages conv\<rparr>)\<rparr>)))"

subsection \<open>Sessions\<close>

text \<open>\<open>str(uuid4())\<close>: the next value of the generator.\<close>

definition draw_uuid :: "env \<Rightarrow> ChatService \<Rightarrow> string \<times> ChatService" where
  "draw_uuid e svc = (uuid4 e (uuids_drawn svc), svc\<lparr>uuids_drawn := Suc (uuids_drawn svc)\<rparr>)"

text \<open>
  The guard \<open>conversation_id and conversation_id in self.conversations\<close>: \<open>None\<close> and the
  empty string are both false in Python.
\<close>

definition known_conversation :: "string option \<Rightarrow> ChatService \<Rightarrow> (string \<times> conversation) option" where
  "known_conversation requested svc =
     (case requested of
        None \<Rightarrow> None
      | Some c \<Rightarrow> if c \<noteq> [] then map_option (Pair c) (conversations svc c) else None)"

text \<open>The dict of a new session.\<close>

definition new_conversation :: "string \<Rightarrow> vectorstore \<Rightarrow> conversation" where
  "new_conversation i vs = \<lparr>conv_id = i, conv_vectorstore = vs, history = [], messages = []\<rparr>"

text \<open>
  \<open>_get_or_create_conversation\<close>. The dict it returns is the one stored in
  \<open>self.conversations\<close>, which the caller then mutates in place; the model returns the key
  with it, so that the caller's updates go to that entry. The state comes back in both
  outcomes: a uuid may have been drawn before the index handle failed.
\<close>

definition get_or_create_conversation ::
  "env \<Rightarrow> string option \<Rightarrow> ChatService
     \<Rightarrow> (exception + string \<times> conversation) \<times> ChatService" where
  "get_or_create_conversation e requested svc =
     (case known_conversation requested svc of
        Some kc \<Rightarrow> (Inr kc, svc)
      | None \<Rightarrow>
          (let (new_id, svc1) =
                 (case requested of
                    None \<Rightarrow> draw_uuid e svc
                  | Some c \<Rightarrow> if c \<noteq> [] then (c, svc) else draw_uuid e svc)
           in case Chroma_init e (db_directory svc1) of
                Inl x \<Rightarrow> (Inl x, svc1)
              | Inr vs \<Rightarrow>
                  (let conv = new_conversation new_id vs;
                       svc2 = svc1\<lparr>conversations := (conversations svc1)(new_id \<mapsto> conv)\<rparr>
                   in (Inr (new_id, conv), save_conversation e new_id svc2))))"

definition get_conversation_history :: "string \<Rightarrow> ChatService \<Rightarrow> ChatResponse list" where
  "get_conversation_history cid svc =
     (case conversations svc cid of None \<Rightarrow> [] | Some c \<Rightarrow> messages c)"

subsection \<open>Sources and prompt\<close>

definition make_source :: "Document \<Rightarrow> Source" where
  "make_source doc =
     \<lparr>document_name = (case meta_document_name doc of None \<Rightarrow> ''Unknown'' | Some n \<Rightarrow> n),
      page_number = (case meta_page_number doc of None \<Rightarrow> 1 | Some p \<Rightarrow> p),
      content_snippet = take 200 (page_content doc) @ ''...''\<rparr>"

text \<open>\<open>sep.join(xs)\<close>.\<close>

fun join :: "string \<Rightarrow> string list \<Rightarrow> string" where
  "join sep [] = []"
| "join sep [x] = x"
| "join sep (x # y # ys) = x @ sep @ join sep (y # ys)"

definition system_message :: message where
  "system_message = SystemMessage
     (''You are a helpful AI assistant that answers questions based on the provided context. \<newline>''
      @ ''Always provide detailed, accurate responses and cite your sources when possible. \<newline>''
      @ ''When you're thinking or analyzing, start your response with '<think>' and end with '</think>' before providing your final answer.'')"

text \<open>The slice \<open>xs[-n:]\<close> for a positive \<open>n\<close>.\<close>

definition last_n :: "nat \<Rightarrow> 'a list \<Rightarrow> 'a list" where
  "last_n n xs = drop (length xs - n) xs"

text \<open>The message list handed to \<open>llm.astream\<close>.\<close>

definition prompt_messages :: "string \<Rightarrow> string \<Rightarrow> message list \<Rightarrow> message list" where
  "prompt_messages context msg hist =
     [system_message,
      HumanMessage (''Context: '' @ context @ ''\<newline>\<newline>Question: '' @ msg)]
     @ (if hist \<noteq> [] then last_n 4 hist else [])"

subsection \<open>The response stream\<close>

definition mk_event :: "string \<Rightarrow> Source list \<Rightarrow> string \<Rightarrow> string \<Rightarrow> event" where
  "mk_event r srcs cid msg =
     \<lparr>ev_response = r, ev_sources = srcs, ev_conversation_id = cid, ev_user_message = msg\<rparr>"

definition thinking_response :: string where
  "thinking_response =
     ''<think>Analyzing the context and formulating a response...</think>\<newline>''"

definition apology :: string where
  "apology = ''I apologize, but I encountered an error while processing your request.''"

text \<open>
  The loop over \<open>llm.astream(messages)\<close>: the events it yields and \<open>full_response\<close> when
  the chunks are used up.
\<close>

fun astream_loop ::
  "Source list \<Rightarrow> string \<Rightarrow> string \<Rightarrow> string \<Rightarrow> chunk list \<Rightarrow> event list \<times> string" where
  "astream_loop srcs cid msg full_response [] = ([], full_response)"
| "astream_loop srcs cid msg full_response (NoContent # cs) =
     astream_loop srcs cid msg full_response cs"
| "astream_loop srcs cid msg full_response (AIMessageChunk c # cs) =
     (let (evs, r) = astream_loop srcs cid msg (full_response @ c) cs
      in (mk_event (full_response @ c) srcs cid msg # evs, r))"

text \<open>
  The function has three \<open>yield\<close> statements: the placeholder sent before the model is
  called, the one in the loop over the model's chunks, and the one in the outer \<open>except\<close>
  handler. An emitted event is paired with the statement that yielded it.
\<close>

datatype phase = Thinking | Streaming | Error

text \<open>
  What one call of \<open>get_streaming_response\<close> does: the events it yields in order, the
  message lists it passed to \<open>llm.astream\<close>, the exception that reached the outer handler
  (if any), and the service afterwards.
\<close>

record chat_run =
  events :: "(phase \<times> event) list"
  llm_calls :: "message list list"
  raised :: "exception option"
  service :: ChatService

definition get_streaming_response ::
  "env \<Rightarrow> string \<Rightarrow> string option \<Rightarrow> ChatService \<Rightarrow> chat_run" where
  "get_streaming_response e msg requested svc =
     (case get_or_create_conversation e requested svc of
        (Inl x, svc1) \<Rightarrow>
          (let (u, svc2) = draw_uuid e svc1
           in \<lparr>events = [(Error, mk_event apology [] u msg)], llm_calls = [],
               raised = Some x, service = svc2\<rparr>)
      | (Inr (key, conversation), svc1) \<Rightarrow>
          (let cid = conv_id conversation
           in case similarity_search e (conv_vectorstore conversation) msg 3 of
                Inl x \<Rightarrow>
                  \<lparr>events = [(Error, mk_event apology [] cid msg)], llm_calls = [],
                   raised = Some x, service = svc1\<rparr>
              | Inr docs \<Rightarrow>
                  (let context = join ''\<newline>'' (map page_content docs);
                       srcs = map make_source docs;
                       thinking = (Thinking, mk_event thinking_response srcs cid msg);
                       prompt = prompt_messages context msg (history conversation);
                       (chunks, failure) = astream e prompt;
                       (streamed, full_response) = astream_loop srcs cid msg [] chunks
                   in case failure of
                        Some x \<Rightarrow>
                          \<lparr>events = thinking # map (Pair Streaming) streamed
                                      @ [(Error, mk_event apology srcs cid msg)],
                           llm_calls = [prompt], raised = Some x, service = svc1\<rparr>
                      | None \<Rightarrow>
                          (let chat_response =
                                 \<lparr>response = full_response, sources = Some srcs,
                                  conversation_id = Some cid, user_message = msg\<rparr>;
                               conversation' = conversation
                                 \<lparr>history := history conversation
                                     @ [HumanMessage msg, AIMessage full_response],
                                  messages := messages conversation @ [chat_response]\<rparr>;
                               svc2 = svc1\<lparr>conversations :=
                                             (conversations svc1)(key \<mapsto> conversation')\<rparr>
                           in \<lparr>events = thinking # map (Pair Streaming) streamed,
                               llm_calls = [prompt], raised = None,
                               service = save_conversation e cid svc2\<rparr>))))"

text \<open>The texts of the chunks that have a \<open>content\<close> attribute, in order.\<close>

fun contents :: "chunk list \<Rightarrow> string list" where
  "contents [] = []"
| "contents (NoContent # cs) = contents cs"
| "contents (AIMessageChunk c # cs) = c # contents cs"

section \<open>Paths (os.path on POSIX)\<close>

text \<open>\<open>os.path.join(a, b)\<close>: an absolute second part replaces the first.\<close>

definition os_path_join :: "string \<Rightarrow> string \<Rightarrow> string" where
  "os_path_join a b =
     (if b \<noteq> [] \<and> hd b = CHR ''/'' then b
      else if a = [] \<or> last a = CHR ''/'' then a @ b
      else a @ ''/'' @ b)"

section \<open>Document processor (services/document_processor.py)\<close>

record UploadFile =
  upload_filename :: string
  upload_content :: string

text \<open>The metadata dict stored with each chunk.\<close>

record chunk_metadata =
  chunk_document_name :: string
  chunk_document_id :: string
  chunk_page_number :: int
  chunk_index :: nat

text \<open>What \<open>pd.read_csv\<close> returns, as far as the code looks at it.\<close>

record DataFrame =
  to_string :: string
  len_df :: nat

text \<open>
  The collaborators of one \<open>process_document\<close> call: the uuid and the clock, the outcome
  of writing the upload and of writing the catalog file, the extraction libraries applied
  to the stored bytes (\<open>PdfReader\<close> gives the text of each page), the text splitter, and
  the index.
\<close>

record ingest_env =
  new_uuid :: string
  now :: nat
  write_upload :: "string \<Rightarrow> exception option"
  write_metadata :: "exception option"
  PdfReader :: "string \<Rightarrow> exception + string list"
  docx2txt_process :: "string \<Rightarrow> exception + string"
  json_load :: "string \<Rightarrow> exception + json"
  json_dumps :: "json \<Rightarrow> string"
  read_csv :: "string \<Rightarrow> exception + DataFrame"
  split_text :: "string \<Rightarrow> string list"
  Chroma_new :: "string \<Rightarrow> exception + vectorstore"
  add_texts :: "vectorstore \<Rightarrow> string list \<Rightarrow> chunk_metadata list \<Rightarrow> exception option"

text \<open>
  The processor object: \<open>self.metadata\<close> is the document catalog, \<open>metadata_file\<close> its
  copy on disk, \<open>upload_files\<close> the stored uploads by path.
\<close>

record DocumentProcessor =
  upload_dir :: string
  processor_db_directory :: string
  metadata :: "string \<rightharpoonup> DocumentInfo"
  metadata_file :: "string \<rightharpoonup> DocumentInfo"
  upload_files :: "string \<rightharpoonup> string"

text \<open>\<open>str.lower\<close> on ASCII letters.\<close>

definition lower_char :: "char \<Rightarrow> char" where
  "lower_char c =
     (let n = (of_char c :: nat) in if 65 \<le> n \<and> n \<le> 90 then char_of (n + 32) else c)"

definition lower :: "string \<Rightarrow> string" where
  "lower s = map lower_char s"

text \<open>\<open>s.split('.')[-1]\<close>: what follows the last dot, or all of \<open>s\<close> without one.\<close>

definition after_last_dot :: "string \<Rightarrow> string" where
  "after_last_dot s = rev (takeWhile (\<lambda>c. c \<noteq> CHR ''.'') (rev s))"

definition process_pdf :: "ingest_env \<Rightarrow> string \<Rightarrow> exception + string \<times> int" where
  "process_pdf e content =
     (case PdfReader e content of
        Inl x \<Rightarrow> Inl x
      | Inr pages \<Rightarrow> Inr (concat (map (\<lambda>t. t @ ''\<newline>'') pages), int (length pages)))"

definition process_docx :: "ingest_env \<Rightarrow> string \<Rightarrow> exception + string \<times> int" where
  "process_docx e content =
     (case docx2txt_process e content of
        Inl x \<Rightarrow> Inl x
      | Inr text \<Rightarrow> Inr (text, max 1 (int (length text) div 3000)))"

definition process_json :: "ingest_env \<Rightarrow> string \<Rightarrow> exception + string \<times> int" where
  "process_json e content =
     (case json_load e content of
        Inl x \<Rightarrow> Inl x
      | Inr data \<Rightarrow>
          Inr (json_dumps e data,
               max 1 (case data of
                        JObject kvs \<Rightarrow> int (length (remdups (map fst kvs)))
                      | _ \<Rightarrow> 1)))"

definition process_csv :: "ingest_env \<Rightarrow> string \<Rightarrow> exception + string \<times> int" where
  "process_csv e content =
     (case read_csv e content of
        Inl x \<Rightarrow> Inl x
      | Inr df \<Rightarrow> Inr (to_string df, max 1 (int (len_df df) div 100)))"

text \<open>The \<open>if\<close>/\<open>elif\<close> chain on the lower-cased file name.\<close>

definition extract_text :: "ingest_env \<Rightarrow> string \<Rightarrow> string \<Rightarrow> exception + string \<times> int" where
  "extract_text e name content =
     (let filename_lower = lower name
      in if endswith filename_lower ''.pdf'' then process_pdf e content
         else if endswith filename_lower ''.docx'' then process_docx e content
         else if endswith filename_lower ''.json'' then process_json e content
         else if endswith filename_lower ''.csv'' then process_csv e content
         else Inl (ValueError
                ''Unsupported file type. File must be one of: PDF, DOCX, JSON, CSV''))"

definition save_metadata :: "DocumentProcessor \<Rightarrow> DocumentProcessor" where
  "save_metadata dp = dp\<lparr>metadata_file := metadata dp\<rparr>"

text \<open>
  \<open>self.metadata[doc_id].update({"embedding_status": s})\<close>. Where the code calls it the key
  has just been stored.
\<close>

definition update_embedding_status ::
  "string \<Rightarrow> string \<Rightarrow> DocumentProcessor \<Rightarrow> DocumentProcessor" where
  "update_embedding_status did s dp =
     (case metadata dp did of
        None \<Rightarrow> dp
      | Some d \<Rightarrow> dp\<lparr>metadata := (metadata dp)(did \<mapsto> d\<lparr>embedding_status := s\<rparr>)\<rparr>)"

definition metadata_list :: "string \<Rightarrow> string \<Rightarrow> string list \<Rightarrow> chunk_metadata list" where
  "metadata_list name did chunks =
     map (\<lambda>i. \<lparr>chunk_document_name = name, chunk_document_id = did,
               chunk_page_number = int i + 1, chunk_index = i\<rparr>)
         [0..<length chunks]"

text \<open>
  The body of the inner \<open>try\<close>: make the index handle and add the chunks. \<open>None\<close> is
  success, otherwise the exception that the \<open>except\<close> branch catches.
\<close>

definition store_embeddings ::
  "ingest_env \<Rightarrow> string \<Rightarrow> string list \<Rightarrow> chunk_metadata list \<Rightarrow> exception option" where
  "store_embeddings e db chunks metas =
     (case Chroma_new e db of
        Inl x \<Rightarrow> Some x
      | Inr vs \<Rightarrow> add_texts e vs chunks metas)"

text \<open>
  \<open>process_document\<close>: the exception it raises or the \<open>DocumentInfo\<close> it returns, and the
  processor afterwards. A failed write of the catalog file raises at its first call; the
  later calls in the same request are then taken to succeed.
\<close>

definition process_document ::
  "ingest_env \<Rightarrow> UploadFile \<Rightarrow> DocumentProcessor
     \<Rightarrow> (exception + DocumentInfo) \<times> DocumentProcessor" where
  "process_document e file dp =
     (let did = new_uuid e;
          file_path = os_path_join (upload_dir dp) (did @ ''_'' @ upload_filename file)
      in case write_upload e file_path of
           Some x \<Rightarrow> (Inl x, dp)
         | None \<Rightarrow>
             (let dp1 = dp\<lparr>upload_files := (upload_files dp)(file_path \<mapsto> upload_content file)\<rparr>
              in case extract_text e (upload_filename file) (upload_content file) of
                   Inl x \<Rightarrow> (Inl x, dp1)
                 | Inr (text, pages) \<Rightarrow>
                     (let chunks = split_text e text;
                          doc_info =
                            \<lparr>doc_id = did, filename = upload_filename file,
                             document_type = after_last_dot (upload_filename file),
                             upload_date = now e, total_pages = Some pages,
                             status = ''processed'', embedding_status = ''pending'',
                             error = None\<rparr>;
                          dp2 = dp1\<lparr>metadata := (metadata dp1)(did \<mapsto> doc_info)\<rparr>
                      in case write_metadata e of
                           Some x \<Rightarrow> (Inl x, dp2)
                         | None \<Rightarrow>
                             (let dp3 = save_metadata dp2;
                                  metas = metadata_list (upload_filename file) did chunks
                              in case store_embeddings e (processor_db_directory dp3) chunks metas of
                                   None \<Rightarrow>
                                     (Inr (doc_info\<lparr>embedding_status := ''completed''\<rparr>),
                                      save_metadata
                                        (update_embedding_status did ''completed'' dp3))
                                 | Some x \<Rightarrow>
                                     (Inl (Exception (''Failed to create embeddings: '' @ str x)),
                                      save_metadata
                                        (update_embedding_status did ''failed'' dp3))))))"

section \<open>Export paths and download (services/export_service.py, main.py)\<close>

record ExportService =
  export_dir :: string

definition get_export_path :: "ExportService \<Rightarrow> string \<Rightarrow> string" where
  "get_export_path es fname = os_path_join (export_dir es) fname"

text \<open>\<open>s.split(c)\<close>.\<close>

fun str_split :: "char \<Rightarrow> string \<Rightarrow> string list" where
  "str_split c [] = [[]]"
| "str_split c (x # xs) =
     (if x = c then [] # str_split c xs
      else (case str_split c xs of
              [] \<Rightarrow> [[x]]
            | w # ws \<Rightarrow> (x # w) # ws))"

text \<open>
  Where a path leads: \<open>os.path.normpath\<close>, as the flag \<open>initial_slashes\<close> and the list
  \<open>new_comps\<close> it builds. \<open>norm_step\<close> is the body of its loop over the components.
\<close>

definition isabs :: "string \<Rightarrow> bool" where
  "isabs p = (p \<noteq> [] \<and> hd p = CHR ''/'')"

definition norm_step :: "bool \<Rightarrow> string \<Rightarrow> string list \<Rightarrow> string list" where
  "norm_step initial_slashes part new_comps =
     (if part = [] \<or> part = ''.'' then new_comps
      else if part \<noteq> ''..'' \<or> (\<not> initial_slashes \<and> new_comps = [])
              \<or> (new_comps \<noteq> [] \<and> last new_comps = ''..'')
           then new_comps @ [part]
      else if new_comps \<noteq> [] then butlast new_comps
      else new_comps)"

definition normpath :: "string \<Rightarrow> bool \<times> string list" where
  "normpath p = (isabs p, fold (norm_step (isabs p)) (str_split CHR ''/'' p) [])"

text \<open>A path lies inside a directory when it leads to the directory or below it.\<close>

definition inside :: "string \<Rightarrow> string \<Rightarrow> bool" where
  "inside dir p =
     (fst (normpath p) = fst (normpath dir) \<and> prefix (snd (normpath dir)) (snd (normpath p)))"

text \<open>The file system: the places where something exists.\<close>

type_synonym filesystem = "(bool \<times> string list) set"

definition os_path_exists :: "filesystem \<Rightarrow> string \<Rightarrow> bool" where
  "os_path_exists fs p = (normpath p \<in> fs)"

datatype http_error = HTTPException nat string

record FileResponse =
  path :: string
  download_name :: string
  media_type :: string

text \<open>
  \<open>download_file\<close>: the 404 raised inside the \<open>try\<close> is caught by the handler's own
  \<open>except Exception\<close> and raised again with status 500.
\<close>

definition download_file ::
  "filesystem \<Rightarrow> ExportService \<Rightarrow> string \<Rightarrow> http_error + FileResponse" where
  "download_file fs es fname =
     (let file_path = get_export_path es fname
      in if \<not> os_path_exists fs file_path
         then Inl (HTTPException 500 ''404: File not found'')
         else Inr \<lparr>path = file_path, download_name = fname,
                  media_type = ''application/octet-stream''\<rparr>)"

section \<open>Concrete collaborators\<close>

text \<open>
  An index that returns one short chunk, a model that answers in two chunks with an object
  without content between them, a disk that can be written, and a uuid generator that never
  repeats itself.
\<close>

definition example_doc :: Document where
  "example_doc =
     \<lparr>page_content = ''Paris is the capital of France.'',
      meta_document_name = Some ''doc.pdf'', meta_page_number = Some 2\<rparr>"

definition example_env :: env where
  "example_env =
     \<lparr>uuid4 = (\<lambda>n. ''uuid-'' @ replicate n (CHR ''i'')),
      Chroma_init = (\<lambda>d. Inr (Chroma d)),
      similarity_search = (\<lambda>vs q k. Inr [example_doc]),
      astream = (\<lambda>p. ([AIMessageChunk ''Par'', NoContent, AIMessageChunk ''is''], None)),
      open_w = (\<lambda>n. True)\<rparr>"

text \<open>The same, with a model whose stream breaks after the first chunk.\<close>

definition broken_llm_env :: env where
  "broken_llm_env =
     example_env\<lparr>astream := (\<lambda>p. ([AIMessageChunk ''Par''], Some (Exception ''connection lost'')))\<rparr>"

text \<open>The same, with an index handle that cannot be made, and with an index query that fails.\<close>

definition no_index_env :: env where
  "no_index_env =
     example_env\<lparr>Chroma_init := (\<lambda>d. Inl (Exception ''index unavailable''))\<rparr>"

definition broken_search_env :: env where
  "broken_search_env =
     example_env\<lparr>similarity_search := (\<lambda>vs q k. Inl (Exception ''query failed''))\<rparr>"

definition empty_service :: ChatService where
  "empty_service =
     \<lparr>db_directory = ''/srv/app/vector_db'', conversations = Map.empty,
      conversations_dir = [], uuids_drawn = 0\<rparr>"

text \<open>
  A session that has had three completed turns, so that its history has six entries, and a
  service that holds it under the id \<open>s1\<close>.
\<close>

definition talkative_session :: conversation where
  "talkative_session =
     \<lparr>conv_id = ''s1'', conv_vectorstore = Chroma ''/srv/app/vector_db'',
      history =
        [HumanMessage ''q1'', AIMessage ''a1'', HumanMessage ''q2'', AIMessage ''a2'',
         HumanMessage ''q3'', AIMessage ''a3''],
      messages =
        [\<lparr>response = ''a1'', sources = Some [], conversation_id = Some ''s1'',
          user_message = ''q1''\<rparr>,
         \<lparr>response = ''a2'', sources = Some [], conversation_id = Some ''s1'',
          user_message = ''q2''\<rparr>,
         \<lparr>response = ''a3'', sources = Some [], conversation_id = Some ''s1'',
          user_message = ''q3''\<rparr>]\<rparr>"

definition talkative_service :: ChatService where
  "talkative_service =
     \<lparr>db_directory = ''/srv/app/vector_db'',
      conversations = [''s1'' \<mapsto> talkative_session],
      conversations_dir = [(''s1.json'', Truncated)], uuids_drawn = 0\<rparr>"

text \<open>
  Collaborators of an ingest call: every library succeeds, \<open>pd.read_csv\<close> gives a frame of
  the given number of rows, the splitter returns the text as one chunk. In the second one
  the index refuses the chunks.
\<close>

definition example_ingest_env :: "nat \<Rightarrow> ingest_env" where
  "example_ingest_env rows =
     \<lparr>new_uuid = ''doc-1'', now = 0,
      write_upload = (\<lambda>p. None), write_metadata = None,
      PdfReader = (\<lambda>b. Inr [b]),
      docx2txt_process = (\<lambda>b. Inr b),
      json_load = (\<lambda>b. Inr (JObject [])),
      json_dumps = (\<lambda>j. ''{}''),
      read_csv = (\<lambda>b. Inr \<lparr>to_string = b, len_df = rows\<rparr>),
      split_text = (\<lambda>t. [t]),
      Chroma_new = (\<lambda>d. Inr (Chroma d)),
      add_texts = (\<lambda>vs cs ms. None)\<rparr>"

definition failing_index_env :: ingest_env where
  "failing_index_env =
     (example_ingest_env 250)
       \<lparr>add_texts := (\<lambda>vs cs ms. Some (Exception ''connection refused''))\<rparr>"

definition csv_upload :: UploadFile where
  "csv_upload = \<lparr>upload_filename = ''Sales.CSV'', upload_content = ''a,b''\<rparr>"

definition empty_processor :: DocumentProcessor where
  "empty_processor =
     \<lparr>upload_dir = ''/srv/app/uploaded_documents'',
      processor_db_directory = ''/srv/app/vector_db'',
      metadata = Map.empty, metadata_file = Map.empty, upload_files = Map.empty\<rparr>"

text \<open>An export service as \<open>main.py\<close> sets it up, and a file system with one file of the index.\<close>

definition example_export :: ExportService where
  "example_export = \<lparr>export_dir = ''/srv/app/exported_chats''\<rparr>"

definition example_fs :: filesystem where
  "example_fs = {(True, [''srv'', ''app'', ''vector_db'', ''chroma.sqlite3''])}"

section \<open>Properties of the chat service\<close>

subsection \<open>The loop over the model's chunks\<close>

lemma astream_loop_responses:
  "map ev_response (fst (astream_loop srcs cid msg full cs)) =
     map (\<lambda>k. full @ concat (take (Suc k) (contents cs))) [0..<length (contents cs)]"
proof (induction cs arbitrary: full)
  case Nil
  then show ?case by simp
next
  case (Cons c cs)
  show ?case
  proof (cases c)
    case (AIMessageChunk t)
    have "map ev_response (fst (astream_loop srcs cid msg full (c # cs))) =
            (full @ t) # map ev_response (fst (astream_loop srcs cid msg (full @ t) cs))"
      using AIMessageChunk by (simp add: mk_event_def case_prod_beta)
    also have "\<dots> = (full @ t) #
            map (\<lambda>k. (full @ t) @ concat (take (Suc k) (contents cs))) [0..<length (contents cs)]"
      by (simp only: Cons.IH)
    also have "\<dots> = map (\<lambda>k. full @ concat (take (Suc k) (contents (c # cs))))
                       [0..<length (contents (c # cs))]"
      using AIMessageChunk by (simp add: upt_conv_Cons map_Suc_upt [symmetric] del: upt_Suc)
    finally show ?thesis .
  next
    case NoContent
    then show ?thesis using Cons.IH by simp
  qed
qed

lemma astream_loop_length:
  "length (fst (astream_loop srcs cid msg full cs)) = length (contents cs)"
  using arg_cong [OF astream_loop_responses, of length srcs cid msg full cs] by simp

lemma astream_loop_fields:
  "ev \<in> set (fst (astream_loop srcs cid msg full cs)) \<Longrightarrow>
     ev_sources ev = srcs \<and> ev_conversation_id ev = cid \<and> ev_user_message ev = msg"
proof (induction cs arbitrary: full)
  case Nil
  then show ?case by simp
next
  case (Cons c cs)
  then show ?case
    by (cases c) (auto simp: mk_event_def case_prod_beta)
qed

lemma astream_loop_nth:
  assumes "i < length (contents cs)"
  shows "ev_response (fst (astream_loop srcs cid msg full cs) ! i) =
           full @ concat (take (Suc i) (contents cs))"
proof -
  have "ev_response (fst (astream_loop srcs cid msg full cs) ! i) =
          map ev_response (fst (astream_loop srcs cid msg full cs)) ! i"
    using assms by (simp add: astream_loop_length)
  also have "\<dots> = full @ concat (take (Suc i) (contents cs))"
    using assms by (simp only: astream_loop_responses) simp
  finally show ?thesis .
qed

lemma astream_loop_mono:
  assumes "Suc i < length (fst (astream_loop srcs cid msg full cs))"
  shows "prefix (ev_response (fst (astream_loop srcs cid msg full cs) ! i))
                (ev_response (fst (astream_loop srcs cid msg full cs) ! Suc i))"
proof -
  have len: "Suc i < length (contents cs)"
    using assms by (simp add: astream_loop_length)
  have "take (Suc (Suc i)) (contents cs) = take (Suc i) (contents cs) @ [contents cs ! Suc i]"
    using len by (simp add: take_Suc_conv_app_nth)
  then show ?thesis
    using len by (simp add: astream_loop_nth)
qed

subsection \<open>The four ways a chat call can go\<close>

lemma gsr_resolution_failed:
  assumes "get_or_create_conversation e requested svc = (Inl x, svc1)"
  shows "get_streaming_response e msg requested svc =
           \<lparr>events = [(Error, mk_event apology [] (uuid4 e (uuids_drawn svc1)) msg)],
            llm_calls = [], raised = Some x,
            service = svc1\<lparr>uuids_drawn := Suc (uuids_drawn svc1)\<rparr>\<rparr>"
  using assms by (simp add: get_streaming_response_def draw_uuid_def)

lemma gsr_retrieval_failed:
  assumes "get_or_create_conversation e requested svc = (Inr (key, c), svc1)"
    and "similarity_search e (conv_vectorstore c) msg 3 = Inl x"
  shows "get_streaming_response e msg requested svc =
           \<lparr>events = [(Error, mk_event apology [] (conv_id c) msg)],
            llm_calls = [], raised = Some x, service = svc1\<rparr>"
  using assms by (simp add: get_streaming_response_def)

lemma gsr_generation_failed:
  assumes "get_or_create_conversation e requested svc = (Inr (key, c), svc1)"
    and "similarity_search e (conv_vectorstore c) msg 3 = Inr docs"
    and "astream e (prompt_messages (join ''\<newline>'' (map page_content docs)) msg (history c))
           = (chunks, Some x)"
  shows "get_streaming_response e msg requested svc =
           \<lparr>events =
              (Thinking, mk_event thinking_response (map make_source docs) (conv_id c) msg)
              # map (Pair Streaming)
                  (fst (astream_loop (map make_source docs) (conv_id c) msg [] chunks))
              @ [(Error, mk_event apology (map make_source docs) (conv_id c) msg)],
            llm_calls =
              [prompt_messages (join ''\<newline>'' (map page_content docs)) msg (history c)],
            raised = Some x, service = svc1\<rparr>"
  using assms by (simp add: get_streaming_response_def Let_def case_prod_beta)

lemma gsr_completed:
  assumes "get_or_create_conversation e requested svc = (Inr (key, c), svc1)"
    and "similarity_search e (conv_vectorstore c) msg 3 = Inr docs"
    and "astream e (prompt_messages (join ''\<newline>'' (map page_content docs)) msg (history c))
           = (chunks, None)"
  shows "get_streaming_response e msg requested svc =
           \<lparr>events =
              (Thinking, mk_event thinking_response (map make_source docs) (conv_id c) msg)
              # map (Pair Streaming)
                  (fst (astream_loop (map make_source docs) (conv_id c) msg [] chunks)),
            llm_calls =
              [prompt_messages (join ''\<newline>'' (map page_content docs)) msg (history c)],
            raised = None,
            service =
              save_conversation e (conv_id c)
                (svc1\<lparr>conversations := (conversations svc1)(key \<mapsto>
                   c\<lparr>history := history c @
                        [HumanMessage msg,
                         AIMessage (snd (astream_loop (map make_source docs) (conv_id c) msg [] chunks))],
                     messages := messages c @
                        [\<lparr>response = snd (astream_loop (map make_source docs) (conv_id c) msg [] chunks),
                          sources = Some (map make_source docs),
                          conversation_id = Some (conv_id c), user_message = msg\<rparr>]\<rparr>)\<rparr>)\<rparr>"
  using assms by (simp add: get_streaming_response_def Let_def case_prod_beta)

lemma gsr_cases:
  obtains
    (resolution_failed) x svc1 where
      "get_or_create_conversation e requested svc = (Inl x, svc1)"
  | (retrieval_failed) key c svc1 x where
      "get_or_create_conversation e requested svc = (Inr (key, c), svc1)"
      "similarity_search e (conv_vectorstore c) msg 3 = Inl x"
  | (generation_failed) key c svc1 docs chunks x where
      "get_or_create_conversation e requested svc = (Inr (key, c), svc1)"
      "similarity_search e (conv_vectorstore c) msg 3 = Inr docs"
      "astream e (prompt_messages (join ''\<newline>'' (map page_content docs)) msg (history c))
         = (chunks, Some x)"
  | (completed) key c svc1 docs chunks where
      "get_or_create_conversation e requested svc = (Inr (key, c), svc1)"
      "similarity_search e (conv_vectorstore c) msg 3 = Inr docs"
      "astream e (prompt_messages (join ''\<newline>'' (map page_content docs)) msg (history c))
         = (chunks, None)"
proof (cases "get_or_create_conversation e requested svc")
  case (Pair r svc1)
  show ?thesis
  proof (cases r)
    case (Inl x)
    then show ?thesis using Pair resolution_failed by simp
  next
    case (Inr kc)
    obtain key c where kc: "kc = (key, c)" by (cases kc)
    show ?thesis
    proof (cases "similarity_search e (conv_vectorstore c) msg 3")
      case (Inl x)
      then show ?thesis using Pair Inr kc retrieval_failed by simp
    next
      case docs: (Inr docs)
      obtain chunks failure where
        a: "astream e (prompt_messages (join ''\<newline>'' (map page_content docs)) msg (history c))
              = (chunks, failure)"
        by (cases "astream e (prompt_messages (join ''\<newline>'' (map page_content docs)) msg (history c))")
      show ?thesis
      proof (cases failure)
        case None
        then show ?thesis using Pair Inr kc docs a completed by simp
      next
        case (Some x)
        then show ?thesis using Pair Inr kc docs a generation_failed by simp
      qed
    qed
  qed
qed

lemma streaming_pair_index:
  assumes xs: "xs = (Thinking, t) # map (Pair Streaming) S @ rest"
    and rest: "\<forall>x\<in>set rest. fst x \<noteq> Streaming"
    and i: "Suc i < length xs" "fst (xs ! i) = Streaming" "fst (xs ! Suc i) = Streaming"
  shows "\<exists>j. i = Suc j \<and> Suc j < length S \<and> snd (xs ! i) = S ! j \<and> snd (xs ! Suc i) = S ! Suc j"
proof (cases i)
  case 0
  then show ?thesis using xs i by simp
next
  case (Suc j)
  have in_S: "Suc j < length S"
  proof (rule ccontr)
    assume "\<not> Suc j < length S"
    then have ge: "length S \<le> Suc j" by simp
    have "xs ! Suc i = rest ! (Suc j - length S)"
      using xs Suc ge by (simp add: nth_append)
    moreover have "Suc j - length S < length rest"
      using i(1) xs Suc ge by simp
    ultimately have "xs ! Suc i \<in> set rest" by simp
    then show False using rest i(3) by blast
  qed
  then have "xs ! i = (Streaming, S ! j)" "xs ! Suc i = (Streaming, S ! Suc j)"
    using xs Suc by (simp_all add: nth_append)
  then show ?thesis using Suc in_S by simp
qed

lemma filter_streaming:
  assumes "\<forall>x\<in>set rest. fst x \<noteq> Streaming"
  shows "filter (\<lambda>x. fst x = Streaming) ((Thinking, t) # map (Pair Streaming) S @ rest)
           = map (Pair Streaming) S"
proof -
  have "filter (\<lambda>x. fst x = Streaming) rest = []"
    using assms by (simp add: filter_empty_conv)
  moreover have "filter (\<lambda>x. fst x = Streaming) (map (Pair Streaming) S) = map (Pair Streaming) S"
    by (induction S) simp_all
  ultimately show ?thesis by simp
qed


subsection \<open>The concrete call\<close>

lemma example_run_events:
  "events (get_streaming_response example_env ''hi'' None empty_service) =
     [(Thinking, mk_event thinking_response [make_source example_doc] ''uuid-'' ''hi''),
      (Streaming, mk_event ''Par'' [make_source example_doc] ''uuid-'' ''hi''),
      (Streaming, mk_event ''Paris'' [make_source example_doc] ''uuid-'' ''hi'')]"
  by (simp add: get_streaming_response_def get_or_create_conversation_def known_conversation_def
      draw_uuid_def example_env_def empty_service_def save_conversation_def Let_def new_conversation_def)

lemma example_run_calls:
  "llm_calls (get_streaming_response example_env ''hi'' None empty_service) =
     [prompt_messages ''Paris is the capital of France.'' ''hi'' []]"
  by (simp add: get_streaming_response_def get_or_create_conversation_def known_conversation_def
      draw_uuid_def example_env_def empty_service_def save_conversation_def Let_def new_conversation_def example_doc_def)


subsection \<open>Streaming\<close>

text \<open>
  Claim C4. In every chat call, of two consecutive events that both come from the loop over
  the model's chunks, the later one's \<open>response\<close> extends the earlier one's (or equals it);
  and the responses of these events are, in order, the concatenations of the first one, the
  first two, ... of the chunk texts the model returned for the prompt: each is the whole
  text so far, not the latest chunk.
\<close>

theorem streaming_responses_grow:
  assumes r: "r = get_streaming_response e msg requested svc"
  shows "(\<forall>i. Suc i < length (events r) \<and> fst (events r ! i) = Streaming
              \<and> fst (events r ! Suc i) = Streaming
            \<longrightarrow> prefix (ev_response (snd (events r ! i)))
                       (ev_response (snd (events r ! Suc i))))
       \<and> (\<forall>p\<in>set (llm_calls r).
            map (ev_response \<circ> snd) (filter (\<lambda>x. fst x = Streaming) (events r))
              = map (\<lambda>k. concat (take (Suc k) (contents (fst (astream e p)))))
                    [0..<length (contents (fst (astream e p)))])"
proof (cases rule: gsr_cases [where e=e and requested=requested and svc=svc and msg=msg])
  case (resolution_failed x svc1)
  then show ?thesis unfolding r by (simp add: gsr_resolution_failed)
next
  case (retrieval_failed key c svc1 x)
  then show ?thesis unfolding r by (simp add: gsr_retrieval_failed)
next
  case (generation_failed key c svc1 docs chunks x)
  define S where "S = fst (astream_loop (map make_source docs) (conv_id c) msg [] chunks)"
  define t where "t = mk_event thinking_response (map make_source docs) (conv_id c) msg"
  define rest where "rest = [(Error, mk_event apology (map make_source docs) (conv_id c) msg)]"
  define p where "p = prompt_messages (join ''\<newline>'' (map page_content docs)) msg (history c)"
  have ev: "events r = (Thinking, t) # map (Pair Streaming) S @ rest"
    and calls: "llm_calls r = [p]"
    unfolding r S_def t_def rest_def p_def
    by (simp_all add: gsr_generation_failed [OF generation_failed])
  have rest: "\<forall>x\<in>set rest. fst x \<noteq> Streaming" by (simp add: rest_def)
  have chunks: "fst (astream e p) = chunks"
    using generation_failed(3) by (simp add: p_def)
  have mono: "prefix (ev_response (snd (events r ! i))) (ev_response (snd (events r ! Suc i)))"
    if h: "Suc i < length (events r)" "fst (events r ! i) = Streaming"
       "fst (events r ! Suc i) = Streaming" for i
  proof -
    obtain j where j: "Suc j < length S" "snd (events r ! i) = S ! j"
        "snd (events r ! Suc i) = S ! Suc j"
      using streaming_pair_index [OF ev rest h] by blast
    show ?thesis
      using astream_loop_mono [of j "map make_source docs" "conv_id c" msg "[]" chunks] j
      by (simp add: S_def)
  qed
  have only_streamed: "filter (\<lambda>x. fst x = Streaming) (events r) = map (Pair Streaming) S"
    unfolding ev by (rule filter_streaming [OF rest])
  have acc: "map (ev_response \<circ> snd) (filter (\<lambda>x. fst x = Streaming) (events r))
               = map (\<lambda>k. concat (take (Suc k) (contents chunks))) [0..<length (contents chunks)]"
    using astream_loop_responses [of "map make_source docs" "conv_id c" msg "[]" chunks]
    by (simp add: only_streamed S_def comp_def)
  show ?thesis using mono acc by (simp add: calls chunks)
next
  case (completed key c svc1 docs chunks)
  define S where "S = fst (astream_loop (map make_source docs) (conv_id c) msg [] chunks)"
  define t where "t = mk_event thinking_response (map make_source docs) (conv_id c) msg"
  define p where "p = prompt_messages (join ''\<newline>'' (map page_content docs)) msg (history c)"
  have ev: "events r = (Thinking, t) # map (Pair Streaming) S @ []"
    and calls: "llm_calls r = [p]"
    unfolding r S_def t_def p_def
    by (simp_all add: gsr_completed [OF completed])
  have rest: "\<forall>x\<in>set ([] :: (phase \<times> event) list). fst x \<noteq> Streaming" by simp
  have chunks: "fst (astream e p) = chunks"
    using completed(3) by (simp add: p_def)
  have mono: "prefix (ev_response (snd (events r ! i))) (ev_response (snd (events r ! Suc i)))"
    if h: "Suc i < length (events r)" "fst (events r ! i) = Streaming"
       "fst (events r ! Suc i) = Streaming" for i
  proof -
    obtain j where j: "Suc j < length S" "snd (events r ! i) = S ! j"
        "snd (events r ! Suc i) = S ! Suc j"
      using streaming_pair_index [OF ev rest h] by blast
    show ?thesis
      using astream_loop_mono [of j "map make_source docs" "conv_id c" msg "[]" chunks] j
      by (simp add: S_def)
  qed
  have only_streamed: "filter (\<lambda>x. fst x = Streaming) (events r) = map (Pair Streaming) S"
    unfolding ev by (rule filter_streaming [OF rest])
  have acc: "map (ev_response \<circ> snd) (filter (\<lambda>x. fst x = Streaming) (events r))
               = map (\<lambda>k. concat (take (Suc k) (contents chunks))) [0..<length (contents chunks)]"
    using astream_loop_responses [of "map make_source docs" "conv_id c" msg "[]" chunks]
    by (simp add: only_streamed S_def comp_def)
  show ?thesis using mono acc by (simp add: calls chunks)
qed


theorem streaming_responses_grow_witness:
  "Suc 1 < length (events (get_streaming_response example_env ''hi'' None empty_service))
   \<and> fst (events (get_streaming_response example_env ''hi'' None empty_service) ! 1) = Streaming
   \<and> fst (events (get_streaming_response example_env ''hi'' None empty_service) ! Suc 1) = Streaming
   \<and> prefix (ev_response (snd (events (get_streaming_response example_env ''hi'' None empty_service) ! 1)))
             (ev_response (snd (events (get_streaming_response example_env ''hi'' None empty_service) ! Suc 1)))
   \<and> prompt_messages ''Paris is the capital of France.'' ''hi'' []
         \<in> set (llm_calls (get_streaming_response example_env ''hi'' None empty_service))
   \<and> map (ev_response \<circ> snd)
         (filter (\<lambda>x. fst x = Streaming)
            (events (get_streaming_response example_env ''hi'' None empty_service)))
       = [''Par'', ''Paris'']"
  using streaming_responses_grow [OF refl, of example_env "''hi''" None empty_service]
  by (simp add: example_run_events example_run_calls mk_event_def)


subsection \<open>Fields of the events\<close>

text \<open>
  Claim C9. Every event of one chat call is a record of the same four fields; all events of
  the call carry one and the same \<open>conversation_id\<close>, and their \<open>user_message\<close> is the
  message the caller passed.
\<close>

theorem events_share_id_and_message:
  "\<exists>cid. \<forall>x\<in>set (events (get_streaming_response e msg requested svc)).
      ev_conversation_id (snd x) = cid \<and> ev_user_message (snd x) = msg"
proof (cases rule: gsr_cases [where e=e and requested=requested and svc=svc and msg=msg])
  case (resolution_failed x svc1)
  then show ?thesis by (simp add: gsr_resolution_failed mk_event_def)
next
  case (retrieval_failed key c svc1 x)
  then show ?thesis by (simp add: gsr_retrieval_failed mk_event_def)
next
  case (generation_failed key c svc1 docs chunks x)
  have "\<forall>x\<in>set (events (get_streaming_response e msg requested svc)).
          ev_conversation_id (snd x) = conv_id c \<and> ev_user_message (snd x) = msg"
    using astream_loop_fields [of _ "map make_source docs" "conv_id c" msg "[]" chunks]
    by (auto simp: gsr_generation_failed [OF generation_failed] mk_event_def)
  then show ?thesis by blast
next
  case (completed key c svc1 docs chunks)
  have "\<forall>x\<in>set (events (get_streaming_response e msg requested svc)).
          ev_conversation_id (snd x) = conv_id c \<and> ev_user_message (snd x) = msg"
    using astream_loop_fields [of _ "map make_source docs" "conv_id c" msg "[]" chunks]
    by (auto simp: gsr_completed [OF completed] mk_event_def)
  then show ?thesis by blast
qed


theorem events_share_id_and_message_witness:
  "length (events (get_streaming_response example_env ''hi'' None empty_service)) = 3
   \<and> ev_conversation_id (snd (events (get_streaming_response example_env ''hi'' None empty_service) ! 0))
       = ev_conversation_id (snd (events (get_streaming_response example_env ''hi'' None empty_service) ! 2))
   \<and> ev_user_message (snd (events (get_streaming_response example_env ''hi'' None empty_service) ! 0)) = ''hi''
   \<and> ev_user_message (snd (events (get_streaming_response example_env ''hi'' None empty_service) ! 2)) = ''hi''"
  using events_share_id_and_message [of example_env "''hi''" None empty_service]
  by (auto simp: example_run_events mk_event_def)

subsection \<open>The prompt\<close>

text \<open>
  Claim C5. Whatever the length of the session's history, a message list passed to the model
  in a chat call is: the fixed system message, then one user message made of the retrieved
  context followed by the query, then the last four entries of the history (all of them when
  there are fewer) in their order; and the model is called with nothing else.
\<close>

theorem prompt_is_system_context_last_four:
  assumes "p \<in> set (llm_calls (get_streaming_response e msg requested svc))"
  shows "\<exists>key c svc1 docs.
           get_or_create_conversation e requested svc = (Inr (key, c), svc1)
         \<and> similarity_search e (conv_vectorstore c) msg 3 = Inr docs
         \<and> p = system_message
               # HumanMessage (''Context: '' @ join ''\<newline>'' (map page_content docs)
                               @ ''\<newline>\<newline>Question: '' @ msg)
               # drop (length (history c) - 4) (history c)
         \<and> length (drop (length (history c) - 4) (history c)) = min 4 (length (history c))
         \<and> llm_calls (get_streaming_response e msg requested svc) = [p]"
proof (cases rule: gsr_cases [where e=e and requested=requested and svc=svc and msg=msg])
  case (resolution_failed x svc1)
  then show ?thesis using assms by (simp add: gsr_resolution_failed)
next
  case (retrieval_failed key c svc1 x)
  then show ?thesis using assms by (simp add: gsr_retrieval_failed)
next
  case (generation_failed key c svc1 docs chunks x)
  have "p = prompt_messages (join ''\<newline>'' (map page_content docs)) msg (history c)"
    using assms by (simp add: gsr_generation_failed [OF generation_failed])
  then show ?thesis
    using generation_failed(1,2)
    by (auto simp: gsr_generation_failed [OF generation_failed] prompt_messages_def last_n_def)
next
  case (completed key c svc1 docs chunks)
  have "p = prompt_messages (join ''\<newline>'' (map page_content docs)) msg (history c)"
    using assms by (simp add: gsr_completed [OF completed])
  then show ?thesis
    using completed(1,2)
    by (auto simp: gsr_completed [OF completed] prompt_messages_def last_n_def)
qed

lemma talkative_run_calls:
  "llm_calls (get_streaming_response example_env ''q4'' (Some ''s1'') talkative_service) =
     [[system_message,
       HumanMessage ''Context: Paris is the capital of France.\<newline>\<newline>Question: q4'',
       HumanMessage ''q2'', AIMessage ''a2'', HumanMessage ''q3'', AIMessage ''a3'']]"
  by (simp add: get_streaming_response_def get_or_create_conversation_def known_conversation_def
      example_env_def talkative_service_def talkative_session_def Let_def example_doc_def prompt_messages_def last_n_def new_conversation_def)

theorem prompt_is_system_context_last_four_witness:
  "[system_message,
    HumanMessage ''Context: Paris is the capital of France.\<newline>\<newline>Question: q4'',
    HumanMessage ''q2'', AIMessage ''a2'', HumanMessage ''q3'', AIMessage ''a3'']
     \<in> set (llm_calls (get_streaming_response example_env ''q4'' (Some ''s1'') talkative_service))
   \<and> (\<exists>key c svc1.
         get_or_create_conversation example_env (Some ''s1'') talkative_service = (Inr (key, c), svc1)
       \<and> length (history c) = 6
       \<and> drop (length (history c) - 4) (history c)
           = [HumanMessage ''q2'', AIMessage ''a2'', HumanMessage ''q3'', AIMessage ''a3''])"
proof -
  let ?p = "[system_message,
    HumanMessage ''Context: Paris is the capital of France.\<newline>\<newline>Question: q4'',
    HumanMessage ''q2'', AIMessage ''a2'', HumanMessage ''q3'', AIMessage ''a3'']"
  have m: "?p \<in> set (llm_calls (get_streaming_response example_env ''q4'' (Some ''s1'') talkative_service))"
    by (simp add: talkative_run_calls)
  from prompt_is_system_context_last_four [OF m] show ?thesis
  proof (elim exE conjE, goal_cases)
    case (1 key c svc1 docs)
    have "length (history c) = 6"
      using 1(1)
      by (auto simp: get_or_create_conversation_def known_conversation_def talkative_service_def talkative_session_def)
    moreover have "drop (length (history c) - 4) (history c)
             = [HumanMessage ''q2'', AIMessage ''a2'', HumanMessage ''q3'', AIMessage ''a3'']"
      using 1(3) by simp
    ultimately show ?case using m 1(1) by (intro conjI exI) assumption+
  qed
qed

section \<open>Properties of the session store\<close>

subsection \<open>Saving and creating sessions\<close>

lemma set_write_file: "set (write_file d n f) \<subseteq> insert (n, f) (set d)"
  by (induction d n f rule: write_file.induct) auto

lemma map_of_write_file: "map_of (write_file d n f) n = Some f"
  by (induction d n f rule: write_file.induct) auto

lemma save_conversation_memory [simp]:
  "conversations (save_conversation e cid svc) = conversations svc"
  "uuids_drawn (save_conversation e cid svc) = uuids_drawn svc"
  "db_directory (save_conversation e cid svc) = db_directory svc"
  by (simp_all add: save_conversation_def split: option.splits)

lemma save_conversation_files:
  assumes "(n, f) \<in> set (conversations_dir (save_conversation e cid svc))"
  shows "(n, f) \<in> set (conversations_dir svc)
       \<or> (\<exists>c. conversations svc cid = Some c \<and> n = cid @ ''.json''
              \<and> (f = Truncated \<and> those (map to_json (history c)) = None
                 \<or> (\<exists>js. those (map to_json (history c)) = Some js
                       \<and> f = Json \<lparr>stored_id = conv_id c, stored_history = js,
                                    stored_messages = messages c\<rparr>)))"
proof (cases "conversations svc cid")
  case None
  then show ?thesis using assms by (simp add: save_conversation_def)
next
  case (Some c)
  show ?thesis
  proof (cases "open_w e (cid @ ''.json'')")
    case False
    then show ?thesis using assms Some by (simp add: save_conversation_def)
  next
    case True
    show ?thesis
    proof (cases "those (map to_json (history c))")
      case None
      then have "(n, f) \<in> insert (cid @ ''.json'', Truncated) (set (conversations_dir svc))"
        using assms Some True set_write_file [of "conversations_dir svc" "cid @ ''.json''" Truncated]
        by (auto simp: save_conversation_def)
      then show ?thesis using Some None by auto
    next
      case (Some js)
      then have "(n, f) \<in> insert (cid @ ''.json'',
                   Json \<lparr>stored_id = conv_id c, stored_history = js, stored_messages = messages c\<rparr>)
                 (set (conversations_dir svc))"
        using assms \<open>conversations svc cid = Some c\<close> True
          set_write_file [of "conversations_dir svc" "cid @ ''.json''"
             "Json \<lparr>stored_id = conv_id c, stored_history = js, stored_messages = messages c\<rparr>"]
        by (auto simp: save_conversation_def)
      then show ?thesis using \<open>conversations svc cid = Some c\<close> Some by auto
    qed
  qed
qed

text \<open>What creating a session does, once the index handle has been made.\<close>

lemma get_or_create_known:
  assumes "c \<noteq> []" "conversations svc c = Some conv"
  shows "get_or_create_conversation e (Some c) svc = (Inr (c, conv), svc)"
  using assms by (simp add: get_or_create_conversation_def known_conversation_def)

lemma get_or_create_supplied:
  assumes "c \<noteq> []" "conversations svc c = None"
  shows "get_or_create_conversation e (Some c) svc =
           (case Chroma_init e (db_directory svc) of
              Inl x \<Rightarrow> (Inl x, svc)
            | Inr vs \<Rightarrow>
                (Inr (c, new_conversation c vs),
                 save_conversation e c
                   (svc\<lparr>conversations := (conversations svc)(c \<mapsto> new_conversation c vs)\<rparr>)))"
  using assms
  by (simp add: get_or_create_conversation_def known_conversation_def Let_def
      split: sum.splits)

lemma get_or_create_drawn:
  assumes "requested = None \<or> requested = Some []"
  shows "get_or_create_conversation e requested svc =
          (let u = uuid4 e (uuids_drawn svc);
               svc1 = svc\<lparr>uuids_drawn := Suc (uuids_drawn svc)\<rparr>
           in case Chroma_init e (db_directory svc) of
              Inl x \<Rightarrow> (Inl x, svc1)
            | Inr vs \<Rightarrow>
                (Inr (u, new_conversation u vs),
                 save_conversation e u
                   (svc1\<lparr>conversations := (conversations svc)(u \<mapsto> new_conversation u vs)\<rparr>)))"
  using assms
  by (auto simp: get_or_create_conversation_def known_conversation_def
      draw_uuid_def Let_def split: sum.splits)

lemma get_or_create_cases:
  obtains (known) c conv where "requested = Some c" "c \<noteq> []" "conversations svc c = Some conv"
  | (supplied) c where "requested = Some c" "c \<noteq> []" "conversations svc c = None"
  | (drawn) "requested = None \<or> requested = Some []"
proof (cases requested)
  case None
  then show ?thesis using drawn by simp
next
  case (Some c)
  show ?thesis
  proof (cases "c = []")
    case True
    then show ?thesis using Some drawn by simp
  next
    case False
    then show ?thesis using Some known supplied by (cases "conversations svc c") auto
  qed
qed

lemma get_or_create_sessions:
  assumes "get_or_create_conversation e requested svc = (res, svc1)"
    and "conversations svc1 k = Some c"
  shows "conversations svc k = Some c \<or> (history c = [] \<and> messages c = [])"
proof (cases rule: get_or_create_cases [where requested=requested and svc=svc])
  case (known i conv)
  then show ?thesis using assms by (simp add: get_or_create_known)
next
  case (supplied i)
  then show ?thesis using assms
    by (auto simp: get_or_create_supplied new_conversation_def split: sum.splits if_splits)
next
  case drawn
  then show ?thesis using assms
    by (auto simp: get_or_create_drawn [OF drawn] new_conversation_def Let_def
        split: sum.splits if_splits)
qed

lemma empty_session_file:
  assumes "(n, f) \<in> set (conversations_dir
             (save_conversation e i (svc\<lparr>conversations := (conversations svc)(i \<mapsto> new_conversation i vs)\<rparr>)))"
  shows "(n, f) \<in> set (conversations_dir svc)
       \<or> f = Json \<lparr>stored_id = i, stored_history = [], stored_messages = []\<rparr>"
  using save_conversation_files [OF assms] by (auto simp: new_conversation_def)

lemma get_or_create_files:
  assumes "get_or_create_conversation e requested svc = (res, svc1)"
    and "(n, f) \<in> set (conversations_dir svc1)"
  shows "(n, f) \<in> set (conversations_dir svc)
       \<or> (\<exists>i. f = Json \<lparr>stored_id = i, stored_history = [], stored_messages = []\<rparr>)"
proof (cases rule: get_or_create_cases [where requested=requested and svc=svc])
  case (known i conv)
  then show ?thesis using assms by (simp add: get_or_create_known)
next
  case (supplied i)
  show ?thesis
  proof (cases "Chroma_init e (db_directory svc)")
    case (Inl x)
    then show ?thesis using assms supplied by (simp add: get_or_create_supplied)
  next
    case (Inr vs)
    then show ?thesis
      using assms supplied empty_session_file [of n f e i svc vs]
      by (auto simp: get_or_create_supplied)
  qed
next
  case drawn
  show ?thesis
  proof (cases "Chroma_init e (db_directory svc)")
    case (Inl x)
    then show ?thesis using assms by (auto simp: get_or_create_drawn [OF drawn] Let_def)
  next
    case (Inr vs)
    then show ?thesis
      using assms
        empty_session_file [of n f e "uuid4 e (uuids_drawn svc)"
           "svc\<lparr>uuids_drawn := Suc (uuids_drawn svc)\<rparr>" vs]
      by (auto simp: get_or_create_drawn [OF drawn] Let_def)
  qed
qed

lemma example_uuid4_inj: "inj (uuid4 example_env)"
proof (rule injI)
  fix m n :: nat
  assume "uuid4 example_env m = uuid4 example_env n"
  then have "length (replicate m (CHR ''i'')) = length (replicate n (CHR ''i''))"
    by (simp add: example_env_def)
  then show "m = n" by simp
qed

lemma example_resolution:
  "get_or_create_conversation example_env None empty_service =
     (Inr (''uuid-'', new_conversation ''uuid-'' (Chroma ''/srv/app/vector_db'')),
      save_conversation example_env ''uuid-''
        (empty_service\<lparr>uuids_drawn := Suc 0,
           conversations := [''uuid-'' \<mapsto> new_conversation ''uuid-'' (Chroma ''/srv/app/vector_db'')]\<rparr>))"
  by (simp add: get_or_create_drawn Let_def example_env_def empty_service_def)

lemma broken_run:
  "raised (get_streaming_response broken_llm_env ''hi'' None empty_service)
     = Some (Exception ''connection lost'')"
  "events (get_streaming_response broken_llm_env ''hi'' None empty_service) =
     [(Thinking, mk_event thinking_response [make_source example_doc] ''uuid-'' ''hi''),
      (Streaming, mk_event ''Par'' [make_source example_doc] ''uuid-'' ''hi''),
      (Error, mk_event apology [make_source example_doc] ''uuid-'' ''hi'')]"
  "conversations (service (get_streaming_response broken_llm_env ''hi'' None empty_service)) ''uuid-''
     = Some (new_conversation ''uuid-'' (Chroma ''/srv/app/vector_db''))"
  by (simp_all add: get_streaming_response_def get_or_create_conversation_def known_conversation_def
      draw_uuid_def broken_llm_env_def example_env_def empty_service_def save_conversation_def Let_def
      new_conversation_def)

subsection \<open>Saving and loading in general\<close>

text \<open>What the loading loop makes of a directory with distinct file names.\<close>

lemma json_name: "endswith n ''.json'' \<Longrightarrow> take (length n - 5) n = cid \<longleftrightarrow> n = cid @ ''.json''"
  by (auto simp: endswith_def suffix_def)

lemma load_loop_skip:
  assumes "cid @ ''.json'' \<notin> fst ` set fs"
  shows "load_loop e db fs convs cid = convs cid"
  using assms
proof (induction fs arbitrary: convs)
  case Nil
  then show ?case by simp
next
  case (Cons a fs)
  obtain n f where a: "a = (n, f)" by (cases a)
  have ne: "n \<noteq> cid @ ''.json''" using Cons.prems a by auto
  have rest: "cid @ ''.json'' \<notin> fst ` set fs" using Cons.prems by auto
  have key: "take (length n - 5) n \<noteq> cid" if "endswith n ''.json''"
    using ne that by (simp add: json_name)
  show ?case
    using Cons.IH [OF rest] a key by (auto split: sum.splits)
qed

lemma load_loop_distinct:
  assumes "distinct (map fst fs)" and "(cid @ ''.json'', f) \<in> set fs"
  shows "load_loop e db fs convs cid =
           (case load_file e db f of Inl x \<Rightarrow> convs cid | Inr c \<Rightarrow> Some c)"
  using assms
proof (induction fs arbitrary: convs)
  case Nil
  then show ?case by simp
next
  case (Cons a fs)
  obtain n g where a: "a = (n, g)" by (cases a)
  show ?case
  proof (cases "n = cid @ ''.json''")
    case True
    then have g: "g = f" using Cons.prems a by (auto simp: rev_image_eqI)
    have rest: "cid @ ''.json'' \<notin> fst ` set fs" using Cons.prems a True by auto
    have json: "endswith n ''.json''" using True by (simp add: endswith_def suffix_def)
    then have key: "take (length n - 5) n = cid" using True by (simp add: json_name)
    show ?thesis
      using a g json key load_loop_skip [OF rest]
      by (auto split: sum.splits)
  next
    case False
    then have rest: "distinct (map fst fs)" "(cid @ ''.json'', f) \<in> set fs"
      using Cons.prems a by auto
    have key: "take (length n - 5) n \<noteq> cid" if "endswith n ''.json''"
      using False that by (simp add: json_name)
    show ?thesis
      using Cons.IH [OF rest] a key by (auto split: sum.splits)
  qed
qed

lemma distinct_write_file:
  "distinct (map fst d) \<Longrightarrow> distinct (map fst (write_file d n f))"
proof (induction d n f rule: write_file.induct)
  case (1 name c)
  then show ?case by simp
next
  case (2 n d fs name c)
  have "fst ` set (write_file fs name c) \<subseteq> insert name (fst ` set fs)"
    using set_write_file [of fs name c] by auto
  then show ?case using 2 by auto
qed

lemma write_file_member: "(n, f) \<in> set (write_file d n f)"
  by (induction d n f rule: write_file.induct) auto

lemma those_plain:
  "those (map to_json h) = Some js \<Longrightarrow> map Plain js = h"
proof (induction h arbitrary: js)
  case Nil
  then show ?case by simp
next
  case (Cons m h)
  then show ?case by (cases m) (auto split: option.splits)
qed

lemma those_message_object:
  "m \<in> set h \<Longrightarrow> to_json m = None \<Longrightarrow> those (map to_json h) = None"
  by (induction h) (auto split: option.splits)

text \<open>
  Saving then loading gives the session back when its history holds plain JSON values
  only (in particular when it is empty) ...
\<close>

lemma save_then_load_plain:
  assumes known: "conversations svc cid = Some c"
    and plain: "those (map to_json (history c)) = Some js"
    and writable: "open_w e (cid @ ''.json'')"
    and name: "CHR ''/'' \<notin> set cid"
    and names: "distinct (map fst (conversations_dir svc))"
    and handle: "Chroma_init e db = Inr vs"
  shows "load_conversations e db (conversations_dir (save_conversation e cid svc)) cid
           = Some \<lparr>conv_id = conv_id c, conv_vectorstore = vs,
                   history = history c, messages = messages c\<rparr>"
proof -
  let ?f = "Json \<lparr>stored_id = conv_id c, stored_history = js, stored_messages = messages c\<rparr>"
  let ?d = "write_file (conversations_dir svc) (cid @ ''.json'') ?f"
  have dir: "conversations_dir (save_conversation e cid svc) = ?d"
    using known plain writable by (simp add: save_conversation_def)
  have "distinct (map fst ?d)" by (rule distinct_write_file [OF names])
  then have d: "distinct (map fst (listdir ?d))"
    by (simp add: listdir_def distinct_map_filter)
  have m: "(cid @ ''.json'', ?f) \<in> set (listdir ?d)"
    using name write_file_member [of "cid @ ''.json''" ?f "conversations_dir svc"]
    by (simp add: listdir_def)
  show ?thesis
    using load_loop_distinct [OF d m, of e db Map.empty] handle those_plain [OF plain]
    by (simp add: dir load_conversations_def load_file_def)
qed

text \<open>... and loses it when the history holds a message object.\<close>

lemma save_then_load_message_object:
  assumes known: "conversations svc cid = Some c"
    and object: "m \<in> set (history c)" "to_json m = None"
    and writable: "open_w e (cid @ ''.json'')"
    and name: "CHR ''/'' \<notin> set cid"
    and names: "distinct (map fst (conversations_dir svc))"
  shows "load_conversations e db (conversations_dir (save_conversation e cid svc)) cid = None"
proof -
  let ?d = "write_file (conversations_dir svc) (cid @ ''.json'') Truncated"
  have dir: "conversations_dir (save_conversation e cid svc) = ?d"
    using known those_message_object [OF object] writable by (simp add: save_conversation_def)
  have "distinct (map fst ?d)" by (rule distinct_write_file [OF names])
  then have d: "distinct (map fst (listdir ?d))"
    by (simp add: listdir_def distinct_map_filter)
  have m: "(cid @ ''.json'', Truncated) \<in> set (listdir ?d)"
    using name write_file_member [of "cid @ ''.json''" Truncated "conversations_dir svc"]
    by (simp add: listdir_def)
  show ?thesis
    using load_loop_distinct [OF d m, of e db Map.empty]
    by (simp add: dir load_conversations_def load_file_def)
qed

subsection \<open>Failure of a chat call\<close>

text \<open>What the outer handler yields, whenever an exception reaches it.\<close>

lemma handler_event:
  assumes failed: "raised (get_streaming_response e msg requested svc) = Some x"
  shows "\<exists>pre ev.
           events (get_streaming_response e msg requested svc) = pre @ [(Error, ev)]
         \<and> (\<forall>y\<in>set pre. fst y \<noteq> Error)
         \<and> ev_response ev = apology
         \<and> ev_user_message ev = msg
         \<and> ev_sources ev =
              (case get_or_create_conversation e requested svc of
                 (Inl a, s1) \<Rightarrow> []
               | (Inr (key, c), s1) \<Rightarrow>
                   (case similarity_search e (conv_vectorstore c) msg 3 of
                      Inl a \<Rightarrow> []
                    | Inr docs \<Rightarrow> map make_source docs))
         \<and> ev_conversation_id ev =
              (case get_or_create_conversation e requested svc of
                 (Inl a, s1) \<Rightarrow> uuid4 e (uuids_drawn s1)
               | (Inr (key, c), s1) \<Rightarrow> conv_id c)
         \<and> (\<forall>k c. conversations (service (get_streaming_response e msg requested svc)) k = Some c
               \<longrightarrow> conversations svc k = Some c \<or> (history c = [] \<and> messages c = []))
         \<and> (\<forall>n f. (n, f) \<in> set (conversations_dir
                                    (service (get_streaming_response e msg requested svc)))
               \<longrightarrow> (n, f) \<in> set (conversations_dir svc)
                   \<or> (\<exists>i. f = Json \<lparr>stored_id = i, stored_history = [],
                                      stored_messages = []\<rparr>))"
proof (cases rule: gsr_cases [where e=e and requested=requested and svc=svc and msg=msg])
  case (resolution_failed a svc1)
  let ?ev = "mk_event apology [] (uuid4 e (uuids_drawn svc1)) msg"
  have run: "get_streaming_response e msg requested svc =
           \<lparr>events = [(Error, ?ev)], llm_calls = [], raised = Some a,
            service = svc1\<lparr>uuids_drawn := Suc (uuids_drawn svc1)\<rparr>\<rparr>"
    by (rule gsr_resolution_failed [OF resolution_failed])
  have mem: "\<forall>k c. conversations (service (get_streaming_response e msg requested svc)) k = Some c
               \<longrightarrow> conversations svc k = Some c \<or> (history c = [] \<and> messages c = [])"
    using get_or_create_sessions [OF resolution_failed] by (simp add: run)
  have disk: "\<forall>n f. (n, f) \<in> set (conversations_dir
                                    (service (get_streaming_response e msg requested svc)))
               \<longrightarrow> (n, f) \<in> set (conversations_dir svc)
                   \<or> (\<exists>i. f = Json \<lparr>stored_id = i, stored_history = [],
                                      stored_messages = []\<rparr>)"
    using get_or_create_files [OF resolution_failed] by (simp add: run)
  have "events (get_streaming_response e msg requested svc) = [] @ [(Error, ?ev)]"
    by (simp add: run)
  moreover have "\<forall>y\<in>set ([] :: (phase \<times> event) list). fst y \<noteq> Error" by simp
  moreover have "ev_response ?ev = apology" "ev_user_message ?ev = msg" "ev_sources ?ev = []"
    "ev_conversation_id ?ev = uuid4 e (uuids_drawn svc1)"
    by (simp_all add: mk_event_def)
  ultimately show ?thesis
    using mem disk resolution_failed
    by (intro exI [of _ "[]"] exI [of _ ?ev]) simp
next
  case (retrieval_failed key c svc1 a)
  let ?ev = "mk_event apology [] (conv_id c) msg"
  have run: "get_streaming_response e msg requested svc =
           \<lparr>events = [(Error, ?ev)], llm_calls = [], raised = Some a, service = svc1\<rparr>"
    by (rule gsr_retrieval_failed [OF retrieval_failed])
  have mem: "\<forall>k c. conversations (service (get_streaming_response e msg requested svc)) k = Some c
               \<longrightarrow> conversations svc k = Some c \<or> (history c = [] \<and> messages c = [])"
    using get_or_create_sessions [OF retrieval_failed(1)] by (simp add: run)
  have disk: "\<forall>n f. (n, f) \<in> set (conversations_dir
                                    (service (get_streaming_response e msg requested svc)))
               \<longrightarrow> (n, f) \<in> set (conversations_dir svc)
                   \<or> (\<exists>i. f = Json \<lparr>stored_id = i, stored_history = [],
                                      stored_messages = []\<rparr>)"
    using get_or_create_files [OF retrieval_failed(1)] by (simp add: run)
  have "events (get_streaming_response e msg requested svc) = [] @ [(Error, ?ev)]"
    by (simp add: run)
  moreover have "\<forall>y\<in>set ([] :: (phase \<times> event) list). fst y \<noteq> Error" by simp
  moreover have "ev_response ?ev = apology" "ev_user_message ?ev = msg" "ev_sources ?ev = []"
    "ev_conversation_id ?ev = conv_id c"
    by (simp_all add: mk_event_def)
  ultimately show ?thesis
    using mem disk retrieval_failed
    by (intro exI [of _ "[]"] exI [of _ ?ev]) simp
next
  case (generation_failed key c svc1 docs chunks a)
  let ?srcs = "map make_source docs"
  let ?ev = "mk_event apology ?srcs (conv_id c) msg"
  let ?pre = "(Thinking, mk_event thinking_response ?srcs (conv_id c) msg)
              # map (Pair Streaming) (fst (astream_loop ?srcs (conv_id c) msg [] chunks))"
  have run: "events (get_streaming_response e msg requested svc) = ?pre @ [(Error, ?ev)]"
    "service (get_streaming_response e msg requested svc) = svc1"
    by (simp_all add: gsr_generation_failed [OF generation_failed])
  have mem: "\<forall>k c. conversations (service (get_streaming_response e msg requested svc)) k = Some c
               \<longrightarrow> conversations svc k = Some c \<or> (history c = [] \<and> messages c = [])"
    using get_or_create_sessions [OF generation_failed(1)] by (simp add: run)
  have disk: "\<forall>n f. (n, f) \<in> set (conversations_dir
                                    (service (get_streaming_response e msg requested svc)))
               \<longrightarrow> (n, f) \<in> set (conversations_dir svc)
                   \<or> (\<exists>i. f = Json \<lparr>stored_id = i, stored_history = [],
                                      stored_messages = []\<rparr>)"
    using get_or_create_files [OF generation_failed(1)] by (simp add: run)
  have "\<forall>y\<in>set ?pre. fst y \<noteq> Error" by auto
  moreover have "ev_response ?ev = apology" "ev_user_message ?ev = msg" "ev_sources ?ev = ?srcs"
    "ev_conversation_id ?ev = conv_id c"
    by (simp_all add: mk_event_def)
  ultimately show ?thesis
    using mem disk generation_failed(1,2) run(1)
    by (intro exI [of _ ?pre] exI [of _ ?ev]) simp
next
  case (completed key c svc1 docs chunks)
  then show ?thesis using failed by (simp add: gsr_completed)
qed


lemma resolution_fails:
  assumes "known_conversation requested svc = None"
    and "Chroma_init e (db_directory svc) = Inl x"
  shows "\<exists>svc1. get_or_create_conversation e requested svc = (Inl x, svc1)"
  using assms
  by (auto simp: get_or_create_conversation_def draw_uuid_def Let_def split: option.splits)

lemma failure_is_raised:
  assumes "(known_conversation requested svc = None
            \<and> (\<exists>x. Chroma_init e (db_directory svc) = Inl x))
         \<or> (\<exists>key c svc1.
               get_or_create_conversation e requested svc = (Inr (key, c), svc1)
             \<and> ((\<exists>x. similarity_search e (conv_vectorstore c) msg 3 = Inl x)
                \<or> (\<exists>docs x.
                      similarity_search e (conv_vectorstore c) msg 3 = Inr docs
                    \<and> snd (astream e (prompt_messages (join ''\<newline>'' (map page_content docs))
                                         msg (history c))) = Some x)))"
  shows "\<exists>x. raised (get_streaming_response e msg requested svc) = Some x"
  using assms
proof (elim disjE conjE exE, goal_cases)
  case (1 x)
  from resolution_fails [OF 1] obtain svc1 where
    "get_or_create_conversation e requested svc = (Inl x, svc1)" ..
  then show ?case by (simp add: gsr_resolution_failed)
next
  case (2 key c svc1 x)
  then show ?case by (simp add: gsr_retrieval_failed)
next
  case (3 key c svc1 docs x)
  obtain chunks where
    "astream e (prompt_messages (join ''\<newline>'' (map page_content docs)) msg (history c))
       = (chunks, Some x)"
    using 3(3)
    by (cases "astream e (prompt_messages (join ''\<newline>'' (map page_content docs)) msg (history c))")
       simp
  then show ?case using 3(1,2) by (simp add: gsr_generation_failed)
qed

text \<open>
  Claim C3. When the session cannot be resolved (the id is not known and the index handle
  cannot be made), or the index query fails, or the model's stream fails, before or after
  some chunks, the chat call reaches its outer handler, and its events end with one event of
  the handler and hold no other such event. That event carries the fixed apology, the
  caller's message, the sources that had been computed (none if the failure came before
  them) and the session's id (the next uuid if no session was resolved). No session gains a
  turn: each session in memory afterwards is as it was before or is new and empty, and each
  file of the conversations directory is as before or holds an empty session. (Putting the
  context and the sources together has no failing step for the chunks the index returns.)
\<close>

theorem failure_ends_in_one_error_event:
  assumes failed:
    "(known_conversation requested svc = None
            \<and> (\<exists>x. Chroma_init e (db_directory svc) = Inl x))
         \<or> (\<exists>key c svc1.
               get_or_create_conversation e requested svc = (Inr (key, c), svc1)
             \<and> ((\<exists>x. similarity_search e (conv_vectorstore c) msg 3 = Inl x)
                \<or> (\<exists>docs x.
                      similarity_search e (conv_vectorstore c) msg 3 = Inr docs
                    \<and> snd (astream e (prompt_messages (join ''\<newline>'' (map page_content docs))
                                         msg (history c))) = Some x)))"
  shows "raised (get_streaming_response e msg requested svc) \<noteq> None
       \<and> (\<exists>pre ev.
           events (get_streaming_response e msg requested svc) = pre @ [(Error, ev)]
         \<and> (\<forall>y\<in>set pre. fst y \<noteq> Error)
         \<and> ev_response ev = apology
         \<and> ev_user_message ev = msg
         \<and> ev_sources ev =
              (case get_or_create_conversation e requested svc of
                 (Inl a, s1) \<Rightarrow> []
               | (Inr (key, c), s1) \<Rightarrow>
                   (case similarity_search e (conv_vectorstore c) msg 3 of
                      Inl a \<Rightarrow> []
                    | Inr docs \<Rightarrow> map make_source docs))
         \<and> ev_conversation_id ev =
              (case get_or_create_conversation e requested svc of
                 (Inl a, s1) \<Rightarrow> uuid4 e (uuids_drawn s1)
               | (Inr (key, c), s1) \<Rightarrow> conv_id c)
         \<and> (\<forall>k c. conversations (service (get_streaming_response e msg requested svc)) k = Some c
               \<longrightarrow> conversations svc k = Some c \<or> (history c = [] \<and> messages c = []))
         \<and> (\<forall>n f. (n, f) \<in> set (conversations_dir
                                    (service (get_streaming_response e msg requested svc)))
               \<longrightarrow> (n, f) \<in> set (conversations_dir svc)
                   \<or> (\<exists>i. f = Json \<lparr>stored_id = i, stored_history = [],
                                      stored_messages = []\<rparr>)))"
proof -
  from failure_is_raised [OF failed] obtain x where
    x: "raised (get_streaming_response e msg requested svc) = Some x" ..
  show ?thesis
    using x handler_event [OF x] by simp
qed

lemma no_index_run:
  "known_conversation None empty_service = None"
  "Chroma_init no_index_env (db_directory empty_service) = Inl (Exception ''index unavailable'')"
  "events (get_streaming_response no_index_env ''hi'' None empty_service)
     = [(Error, mk_event apology [] ''uuid-i'' ''hi'')]"
  "conversations (service (get_streaming_response no_index_env ''hi'' None empty_service))
     ''uuid-'' = None"
  by (simp_all add: get_streaming_response_def get_or_create_conversation_def
      known_conversation_def draw_uuid_def no_index_env_def example_env_def empty_service_def
      Let_def)

lemma broken_search_run:
  "get_or_create_conversation broken_search_env None empty_service =
     (Inr (''uuid-'', new_conversation ''uuid-'' (Chroma ''/srv/app/vector_db'')),
      save_conversation broken_search_env ''uuid-''
        (empty_service\<lparr>uuids_drawn := Suc 0,
           conversations := [''uuid-'' \<mapsto> new_conversation ''uuid-'' (Chroma ''/srv/app/vector_db'')]\<rparr>))"
  "similarity_search broken_search_env
      (conv_vectorstore (new_conversation ''uuid-'' (Chroma ''/srv/app/vector_db''))) ''hi'' 3
     = Inl (Exception ''query failed'')"
  "events (get_streaming_response broken_search_env ''hi'' None empty_service)
     = [(Error, mk_event apology [] ''uuid-'' ''hi'')]"
  by (simp_all add: get_streaming_response_def get_or_create_conversation_def
      known_conversation_def draw_uuid_def broken_search_env_def example_env_def
      empty_service_def Let_def new_conversation_def save_conversation_def)

lemma broken_llm_run:
  "get_or_create_conversation broken_llm_env None empty_service =
     (Inr (''uuid-'', new_conversation ''uuid-'' (Chroma ''/srv/app/vector_db'')),
      save_conversation broken_llm_env ''uuid-''
        (empty_service\<lparr>uuids_drawn := Suc 0,
           conversations := [''uuid-'' \<mapsto> new_conversation ''uuid-'' (Chroma ''/srv/app/vector_db'')]\<rparr>))"
  "similarity_search broken_llm_env
      (conv_vectorstore (new_conversation ''uuid-'' (Chroma ''/srv/app/vector_db''))) ''hi'' 3
     = Inr [example_doc]"
  "snd (astream broken_llm_env
          (prompt_messages (join ''\<newline>'' (map page_content [example_doc])) ''hi''
             (history (new_conversation ''uuid-'' (Chroma ''/srv/app/vector_db'')))))
     = Some (Exception ''connection lost'')"
  by (simp_all add: get_or_create_conversation_def known_conversation_def draw_uuid_def
      broken_llm_env_def example_env_def empty_service_def Let_def new_conversation_def
      save_conversation_def)

theorem failure_ends_in_one_error_event_witness:
  "known_conversation None empty_service = None
   \<and> Chroma_init no_index_env (db_directory empty_service) = Inl (Exception ''index unavailable'')
   \<and> raised (get_streaming_response no_index_env ''hi'' None empty_service) \<noteq> None
   \<and> events (get_streaming_response no_index_env ''hi'' None empty_service)
       = [(Error, mk_event apology [] ''uuid-i'' ''hi'')]
   \<and> conversations (service (get_streaming_response no_index_env ''hi'' None empty_service))
        ''uuid-'' = None
   \<and> similarity_search broken_search_env
        (conv_vectorstore (new_conversation ''uuid-'' (Chroma ''/srv/app/vector_db''))) ''hi'' 3
       = Inl (Exception ''query failed'')
   \<and> raised (get_streaming_response broken_search_env ''hi'' None empty_service) \<noteq> None
   \<and> events (get_streaming_response broken_search_env ''hi'' None empty_service)
       = [(Error, mk_event apology [] ''uuid-'' ''hi'')]
   \<and> snd (astream broken_llm_env
            (prompt_messages (join ''\<newline>'' (map page_content [example_doc])) ''hi''
               (history (new_conversation ''uuid-'' (Chroma ''/srv/app/vector_db'')))))
       = Some (Exception ''connection lost'')
   \<and> raised (get_streaming_response broken_llm_env ''hi'' None empty_service) \<noteq> None
   \<and> length (events (get_streaming_response broken_llm_env ''hi'' None empty_service)) = 3
   \<and> last (events (get_streaming_response broken_llm_env ''hi'' None empty_service))
       = (Error, mk_event apology [make_source example_doc] ''uuid-'' ''hi'')
   \<and> history (new_conversation ''uuid-'' (Chroma ''/srv/app/vector_db'')) = []
   \<and> conversations (service (get_streaming_response broken_llm_env ''hi'' None empty_service)) ''uuid-''
       = Some (new_conversation ''uuid-'' (Chroma ''/srv/app/vector_db''))"
proof -
  have resolution:
    "raised (get_streaming_response no_index_env ''hi'' None empty_service) \<noteq> None"
    using failure_ends_in_one_error_event [of None empty_service no_index_env "''hi''"]
      no_index_run(1,2)
    by blast
  have retrieval:
    "raised (get_streaming_response broken_search_env ''hi'' None empty_service) \<noteq> None"
    using failure_ends_in_one_error_event [of None empty_service broken_search_env "''hi''"]
      broken_search_run(1,2)
    by blast
  have generation:
    "raised (get_streaming_response broken_llm_env ''hi'' None empty_service) \<noteq> None"
    using failure_ends_in_one_error_event [of None empty_service broken_llm_env "''hi''"]
      broken_llm_run
    by blast
  have "length (events (get_streaming_response broken_llm_env ''hi'' None empty_service)) = 3"
    and "last (events (get_streaming_response broken_llm_env ''hi'' None empty_service))
       = (Error, mk_event apology [make_source example_doc] ''uuid-'' ''hi'')"
    and "history (new_conversation ''uuid-'' (Chroma ''/srv/app/vector_db'')) = []"
    by (simp_all add: broken_run(2) new_conversation_def)
  then show ?thesis
    using resolution retrieval generation no_index_run broken_search_run(2,3) broken_llm_run(3)
      broken_run(3)
    by (intro conjI)
qed

subsection \<open>Get or create\<close>

text \<open>
  Claim C6, as the code has it. For a known id that is not the empty string, two calls in a
  row return the same session (same id, same history) and leave the service as it was.
  Two calls without an id (or with the empty string, which the code treats alike) return
  new sessions whose ids are the next two uuids, distinct when the generator does not repeat
  itself. For an unknown id that is not the empty string the call creates a session with
  that id and, when the file can be opened, writes the empty session under the name of
  the id followed by \<open>.json\<close>. When the id holds no path separator that file is in the
  conversations directory: it is listed there and, the file names being distinct, loading
  all sessions gives the new session back. The two creating cases suppose that the index
  handle can be made.
\<close>

theorem get_or_create_conversation_contract:
  "(k \<noteq> [] \<and> conversations svc k = Some conv \<longrightarrow>
      get_or_create_conversation e (Some k) svc = (Inr (k, conv), svc)
    \<and> get_or_create_conversation e (Some k) (snd (get_or_create_conversation e (Some k) svc))
        = (Inr (k, conv), svc))
 \<and> ((requested = None \<or> requested = Some []) \<and> Chroma_init e (db_directory svc) = Inr vs \<longrightarrow>
      (\<exists>svc1 svc2.
          get_or_create_conversation e requested svc
            = (Inr (uuid4 e (uuids_drawn svc),
                    new_conversation (uuid4 e (uuids_drawn svc)) vs), svc1)
        \<and> get_or_create_conversation e requested svc1
            = (Inr (uuid4 e (Suc (uuids_drawn svc)),
                    new_conversation (uuid4 e (Suc (uuids_drawn svc))) vs), svc2)
        \<and> (inj (uuid4 e) \<longrightarrow>
              conv_id (new_conversation (uuid4 e (uuids_drawn svc)) vs)
                \<noteq> conv_id (new_conversation (uuid4 e (Suc (uuids_drawn svc))) vs))))
 \<and> (c \<noteq> [] \<and> conversations svc c = None \<and> Chroma_init e (db_directory svc) = Inr vs \<longrightarrow>
      (\<exists>svc1.
          get_or_create_conversation e (Some c) svc = (Inr (c, new_conversation c vs), svc1)
        \<and> conv_id (new_conversation c vs) = c
        \<and> conversations svc1 = (conversations svc)(c \<mapsto> new_conversation c vs)
        \<and> (open_w e (c @ ''.json'') \<longrightarrow>
              map_of (conversations_dir svc1) (c @ ''.json'')
                = Some (Json \<lparr>stored_id = c, stored_history = [], stored_messages = []\<rparr>))
        \<and> (open_w e (c @ ''.json'') \<and> CHR ''/'' \<notin> set c \<longrightarrow>
              (c @ ''.json'', Json \<lparr>stored_id = c, stored_history = [], stored_messages = []\<rparr>)
                \<in> set (listdir (conversations_dir svc1)))
        \<and> (open_w e (c @ ''.json'') \<and> CHR ''/'' \<notin> set c
              \<and> distinct (map fst (conversations_dir svc)) \<longrightarrow>
              load_conversations e (db_directory svc) (conversations_dir svc1) c
                = Some (new_conversation c vs))))"
proof (intro conjI impI)
  assume "k \<noteq> [] \<and> conversations svc k = Some conv"
  then show "get_or_create_conversation e (Some k) svc = (Inr (k, conv), svc)"
    by (simp add: get_or_create_known)
next
  assume "k \<noteq> [] \<and> conversations svc k = Some conv"
  then show "get_or_create_conversation e (Some k) (snd (get_or_create_conversation e (Some k) svc))
        = (Inr (k, conv), svc)"
    by (simp add: get_or_create_known)
next
  assume a: "(requested = None \<or> requested = Some []) \<and> Chroma_init e (db_directory svc) = Inr vs"
  then have drawn: "requested = None \<or> requested = Some []" by simp
  let ?u = "uuid4 e (uuids_drawn svc)" and ?v = "uuid4 e (Suc (uuids_drawn svc))"
  define svc1 where "svc1 = save_conversation e ?u
       (svc\<lparr>uuids_drawn := Suc (uuids_drawn svc),
            conversations := (conversations svc)(?u \<mapsto> new_conversation ?u vs)\<rparr>)"
  define svc2 where "svc2 = save_conversation e ?v
       (svc1\<lparr>uuids_drawn := Suc (uuids_drawn svc1),
            conversations := (conversations svc1)(?v \<mapsto> new_conversation ?v vs)\<rparr>)"
  have first: "get_or_create_conversation e requested svc = (Inr (?u, new_conversation ?u vs), svc1)"
    using a by (simp add: get_or_create_drawn [OF drawn] svc1_def Let_def)
  have "uuids_drawn svc1 = Suc (uuids_drawn svc)" "db_directory svc1 = db_directory svc"
    by (simp_all add: svc1_def)
  then have second: "get_or_create_conversation e requested svc1 = (Inr (?v, new_conversation ?v vs), svc2)"
    using a by (simp add: get_or_create_drawn [OF drawn] svc2_def Let_def)
  have "inj (uuid4 e) \<longrightarrow> conv_id (new_conversation ?u vs) \<noteq> conv_id (new_conversation ?v vs)"
    by (auto simp: new_conversation_def dest: injD)
  then show "\<exists>svc1 svc2.
          get_or_create_conversation e requested svc = (Inr (?u, new_conversation ?u vs), svc1)
        \<and> get_or_create_conversation e requested svc1 = (Inr (?v, new_conversation ?v vs), svc2)
        \<and> (inj (uuid4 e) \<longrightarrow>
              conv_id (new_conversation ?u vs) \<noteq> conv_id (new_conversation ?v vs))"
    using first second by blast
next
  assume a: "c \<noteq> [] \<and> conversations svc c = None \<and> Chroma_init e (db_directory svc) = Inr vs"
  define svc1 where "svc1 = save_conversation e c
       (svc\<lparr>conversations := (conversations svc)(c \<mapsto> new_conversation c vs)\<rparr>)"
  have run: "get_or_create_conversation e (Some c) svc = (Inr (c, new_conversation c vs), svc1)"
    using a by (simp add: get_or_create_supplied svc1_def)
  have mem: "conversations svc1 = (conversations svc)(c \<mapsto> new_conversation c vs)"
    by (simp add: svc1_def)
  have disk: "open_w e (c @ ''.json'') \<longrightarrow>
              map_of (conversations_dir svc1) (c @ ''.json'')
                = Some (Json \<lparr>stored_id = c, stored_history = [], stored_messages = []\<rparr>)"
    by (simp add: svc1_def save_conversation_def new_conversation_def map_of_write_file)
  let ?f = "Json \<lparr>stored_id = c, stored_history = [], stored_messages = []\<rparr>"
  let ?svc = "svc\<lparr>conversations := (conversations svc)(c \<mapsto> new_conversation c vs)\<rparr>"
  have listed: "open_w e (c @ ''.json'') \<and> CHR ''/'' \<notin> set c \<longrightarrow>
              (c @ ''.json'', ?f) \<in> set (listdir (conversations_dir svc1))"
    using write_file_member [of "c @ ''.json''" ?f "conversations_dir svc"]
    by (simp add: svc1_def save_conversation_def new_conversation_def listdir_def)
  have loaded: "open_w e (c @ ''.json'') \<and> CHR ''/'' \<notin> set c
              \<and> distinct (map fst (conversations_dir svc)) \<longrightarrow>
              load_conversations e (db_directory svc) (conversations_dir svc1) c
                = Some (new_conversation c vs)"
  proof
    assume h: "open_w e (c @ ''.json'') \<and> CHR ''/'' \<notin> set c
              \<and> distinct (map fst (conversations_dir svc))"
    have known: "conversations ?svc c = Some (new_conversation c vs)" by simp
    have plain: "those (map to_json (history (new_conversation c vs))) = Some []"
      by (simp add: new_conversation_def)
    have names: "distinct (map fst (conversations_dir ?svc))" using h by simp
    have handle: "Chroma_init e (db_directory svc) = Inr vs" using a by simp
    from save_then_load_plain [OF known plain _ _ names handle] h
    show "load_conversations e (db_directory svc) (conversations_dir svc1) c
            = Some (new_conversation c vs)"
      by (simp add: svc1_def new_conversation_def)
  qed
  have result: "conv_id (new_conversation c vs) = c" by (simp add: new_conversation_def)
  show "\<exists>svc1.
          get_or_create_conversation e (Some c) svc = (Inr (c, new_conversation c vs), svc1)
        \<and> conv_id (new_conversation c vs) = c
        \<and> conversations svc1 = (conversations svc)(c \<mapsto> new_conversation c vs)
        \<and> (open_w e (c @ ''.json'') \<longrightarrow>
              map_of (conversations_dir svc1) (c @ ''.json'')
                = Some (Json \<lparr>stored_id = c, stored_history = [], stored_messages = []\<rparr>))
        \<and> (open_w e (c @ ''.json'') \<and> CHR ''/'' \<notin> set c \<longrightarrow>
              (c @ ''.json'', Json \<lparr>stored_id = c, stored_history = [], stored_messages = []\<rparr>)
                \<in> set (listdir (conversations_dir svc1)))
        \<and> (open_w e (c @ ''.json'') \<and> CHR ''/'' \<notin> set c
              \<and> distinct (map fst (conversations_dir svc)) \<longrightarrow>
              load_conversations e (db_directory svc) (conversations_dir svc1) c
                = Some (new_conversation c vs))"
    using run result mem disk listed loaded by (intro exI [of _ svc1] conjI)
qed

theorem get_or_create_conversation_contract_witness:
  "''s1'' \<noteq> [] \<and> conversations talkative_service ''s1'' = Some talkative_session
   \<and> get_or_create_conversation example_env (Some ''s1'') talkative_service
       = (Inr (''s1'', talkative_session), talkative_service)
   \<and> Chroma_init example_env (db_directory talkative_service) = Inr (Chroma ''/srv/app/vector_db'')
   \<and> inj (uuid4 example_env)
   \<and> uuid4 example_env (uuids_drawn talkative_service)
       \<noteq> uuid4 example_env (Suc (uuids_drawn talkative_service))
   \<and> ''s2'' \<noteq> [] \<and> conversations talkative_service ''s2'' = None
   \<and> open_w example_env (''s2'' @ ''.json'')
   \<and> CHR ''/'' \<notin> set ''s2''
   \<and> distinct (map fst (conversations_dir talkative_service))
   \<and> fst (get_or_create_conversation example_env (Some ''s2'') talkative_service)
       = Inr (''s2'', new_conversation ''s2'' (Chroma ''/srv/app/vector_db''))
   \<and> map_of (conversations_dir (snd (get_or_create_conversation example_env (Some ''s2'')
                                        talkative_service))) (''s2'' @ ''.json'')
       = Some (Json \<lparr>stored_id = ''s2'', stored_history = [], stored_messages = []\<rparr>)
   \<and> (''s2'' @ ''.json'', Json \<lparr>stored_id = ''s2'', stored_history = [], stored_messages = []\<rparr>)
       \<in> set (listdir (conversations_dir (snd (get_or_create_conversation example_env (Some ''s2'')
                                                 talkative_service))))
   \<and> load_conversations example_env (db_directory talkative_service)
        (conversations_dir (snd (get_or_create_conversation example_env (Some ''s2'')
                                   talkative_service))) ''s2''
       = Some (new_conversation ''s2'' (Chroma ''/srv/app/vector_db''))"
proof -
  have known: "''s1'' \<noteq> [] \<and> conversations talkative_service ''s1'' = Some talkative_session"
    by (simp add: talkative_service_def)
  have handle: "Chroma_init example_env (db_directory talkative_service)
                  = Inr (Chroma ''/srv/app/vector_db'')"
    by (simp add: example_env_def talkative_service_def)
  have unknown: "''s2'' \<noteq> [] \<and> conversations talkative_service ''s2'' = None"
    by (simp add: talkative_service_def)
  have writable: "open_w example_env (''s2'' @ ''.json'')"
    by (simp add: example_env_def)
  have plain_name: "CHR ''/'' \<notin> set ''s2''"
    by simp
  have names: "distinct (map fst (conversations_dir talkative_service))"
    by (simp add: talkative_service_def)
  have distinct_ids: "uuid4 example_env (uuids_drawn talkative_service)
       \<noteq> uuid4 example_env (Suc (uuids_drawn talkative_service))"
    using example_uuid4_inj by (auto dest: injD)
  show ?thesis
    using get_or_create_conversation_contract
      [of "''s1''" talkative_service talkative_session example_env None
          "Chroma ''/srv/app/vector_db''" "''s2''"]
      known handle unknown writable plain_name names distinct_ids example_uuid4_inj
    by auto
qed

text \<open>
  The claim as stated fails for the empty string as supplied id: the new session gets a
  uuid as its id, and nothing is stored under the empty id.
\<close>

theorem empty_supplied_id_is_replaced:
  "conversations empty_service [] = None
   \<and> fst (get_or_create_conversation example_env (Some []) empty_service)
       = Inr (''uuid-'', new_conversation ''uuid-'' (Chroma ''/srv/app/vector_db''))
   \<and> conv_id (new_conversation ''uuid-'' (Chroma ''/srv/app/vector_db'')) \<noteq> []
   \<and> conversations (snd (get_or_create_conversation example_env (Some []) empty_service)) [] = None
   \<and> map_of (conversations_dir (snd (get_or_create_conversation example_env (Some []) empty_service)))
        ([] @ ''.json'') = None"
  by (simp add: get_or_create_conversation_def known_conversation_def draw_uuid_def
      example_env_def empty_service_def save_conversation_def Let_def new_conversation_def)

text \<open>
  An id with a path separator: the session is created under the id, but its file is not in
  the conversations directory, and loading all sessions does not give it back.
\<close>

lemma separator_id_is_not_listed:
  "fst (get_or_create_conversation example_env (Some ''../x'') empty_service)
     = Inr (''../x'', new_conversation ''../x'' (Chroma ''/srv/app/vector_db''))
   \<and> conversations_dir (snd (get_or_create_conversation example_env (Some ''../x'') empty_service))
       = [(''../x.json'', Json \<lparr>stored_id = ''../x'', stored_history = [], stored_messages = []\<rparr>)]
   \<and> listdir (conversations_dir
                 (snd (get_or_create_conversation example_env (Some ''../x'') empty_service))) = []
   \<and> load_conversations example_env ''/srv/app/vector_db''
        (conversations_dir (snd (get_or_create_conversation example_env (Some ''../x'') empty_service)))
        ''../x'' = None"
  by (simp add: get_or_create_conversation_def known_conversation_def example_env_def
      empty_service_def save_conversation_def Let_def new_conversation_def listdir_def
      load_conversations_def)

subsection \<open>Sources\<close>

text \<open>
  Claim C8, as the code has it. Every event of a chat call whose retrieval succeeded carries
  one source per retrieved chunk, in order: its snippet is the first 200 characters of the
  chunk's text (all of it when shorter) followed by three dots, its document name and page
  number are the ones stored with the chunk, or \<open>Unknown\<close> and \<open>1\<close> where none is stored.
\<close>

theorem event_sources_from_retrieved_chunks:
  assumes "get_or_create_conversation e requested svc = (Inr (key, c), svc1)"
    and "similarity_search e (conv_vectorstore c) msg 3 = Inr docs"
    and "x \<in> set (events (get_streaming_response e msg requested svc))"
  shows "length (ev_sources (snd x)) = length docs
       \<and> (\<forall>i<length docs.
             content_snippet (ev_sources (snd x) ! i) = take 200 (page_content (docs ! i)) @ ''...''
           \<and> prefix (take 200 (page_content (docs ! i))) (page_content (docs ! i))
           \<and> length (take 200 (page_content (docs ! i))) = min 200 (length (page_content (docs ! i)))
           \<and> document_name (ev_sources (snd x) ! i)
               = (case meta_document_name (docs ! i) of None \<Rightarrow> ''Unknown'' | Some n \<Rightarrow> n)
           \<and> page_number (ev_sources (snd x) ! i)
               = (case meta_page_number (docs ! i) of None \<Rightarrow> 1 | Some p \<Rightarrow> p))"
proof -
  have srcs: "ev_sources (snd x) = map make_source docs"
  proof (cases rule: gsr_cases [where e=e and requested=requested and svc=svc and msg=msg])
    case (resolution_failed a s1)
    then show ?thesis using assms(1) by simp
  next
    case (retrieval_failed key' c' s1 a)
    then show ?thesis using assms(1,2) by simp
  next
    case (generation_failed key' c' s1 docs' chunks a)
    then have same: "c' = c" "docs' = docs" using assms(1,2) by simp_all
    show ?thesis
      using assms(3) astream_loop_fields [of _ "map make_source docs" "conv_id c" msg "[]" chunks]
      by (auto simp: gsr_generation_failed [OF generation_failed] same mk_event_def)
  next
    case (completed key' c' s1 docs' chunks)
    then have same: "c' = c" "docs' = docs" using assms(1,2) by simp_all
    show ?thesis
      using assms(3) astream_loop_fields [of _ "map make_source docs" "conv_id c" msg "[]" chunks]
      by (auto simp: gsr_completed [OF completed] same mk_event_def)
  qed
  show ?thesis
    by (simp add: srcs make_source_def take_is_prefix min_def)
qed

theorem event_sources_from_retrieved_chunks_witness:
  "similarity_search example_env
      (conv_vectorstore (new_conversation ''uuid-'' (Chroma ''/srv/app/vector_db''))) ''hi'' 3
     = Inr [example_doc]
   \<and> (Streaming, mk_event ''Par'' [make_source example_doc] ''uuid-'' ''hi'')
       \<in> set (events (get_streaming_response example_env ''hi'' None empty_service))
   \<and> (0::nat) < length [example_doc]
   \<and> content_snippet (ev_sources (mk_event ''Par'' [make_source example_doc] ''uuid-'' ''hi'') ! 0)
       = ''Paris is the capital of France....''
   \<and> document_name (ev_sources (mk_event ''Par'' [make_source example_doc] ''uuid-'' ''hi'') ! 0)
       = ''doc.pdf''
   \<and> page_number (ev_sources (mk_event ''Par'' [make_source example_doc] ''uuid-'' ''hi'') ! 0) = 2"
proof -
  have search: "similarity_search example_env
      (conv_vectorstore (new_conversation ''uuid-'' (Chroma ''/srv/app/vector_db''))) ''hi'' 3
     = Inr [example_doc]"
    by (simp add: example_env_def)
  have emitted: "(Streaming, mk_event ''Par'' [make_source example_doc] ''uuid-'' ''hi'')
       \<in> set (events (get_streaming_response example_env ''hi'' None empty_service))"
    by (simp add: example_run_events)
  show ?thesis
    using event_sources_from_retrieved_chunks [OF example_resolution search emitted] search emitted
    by (simp add: example_doc_def)
qed

text \<open>
  The claim as stated fails: the snippet is not a prefix of the chunk's text, since the
  three dots are appended to it.
\<close>

theorem snippet_is_not_a_prefix:
  "ev_sources (snd (hd (events (get_streaming_response example_env ''hi'' None empty_service))))
     = [\<lparr>document_name = ''doc.pdf'', page_number = 2,
         content_snippet = ''Paris is the capital of France....''\<rparr>]
   \<and> page_content example_doc = ''Paris is the capital of France.''
   \<and> \<not> prefix ''Paris is the capital of France....'' (page_content example_doc)"
  by (simp add: example_run_events mk_event_def make_source_def example_doc_def)

section \<open>Properties of the document processor\<close>

subsection \<open>Extraction and the catalog\<close>

lemma csv_is_no_other_type:
  assumes "endswith s ''.csv''"
  shows "\<not> endswith s ''.pdf''" "\<not> endswith s ''.docx''" "\<not> endswith s ''.json''"
  using assms suffix_same_cases [of "''.csv''" s "''.pdf''"]
    suffix_same_cases [of "''.csv''" s "''.docx''"]
    suffix_same_cases [of "''.csv''" s "''.json''"]
  by (auto simp: endswith_def suffix_to_prefix)

lemma extract_text_csv:
  assumes "endswith (lower name) ''.csv''" and "read_csv e content = Inr df"
  shows "extract_text e name content = Inr (to_string df, max 1 (int (len_df df) div 100))"
  using assms csv_is_no_other_type [OF assms(1)]
  by (simp add: extract_text_def process_csv_def Let_def)

text \<open>The document processor after the upload was stored and the text extracted.\<close>

lemma process_document_extracted:
  assumes "write_upload e (os_path_join (upload_dir dp) (new_uuid e @ ''_'' @ upload_filename file)) = None"
    and "extract_text e (upload_filename file) (upload_content file) = Inr (text, pages)"
  shows "\<exists>d. metadata (snd (process_document e file dp)) (new_uuid e) = Some d
            \<and> total_pages d = Some pages \<and> status d = ''processed'' \<and> error d = None
            \<and> doc_id d = new_uuid e \<and> filename d = upload_filename file"
  using assms
  by (auto simp: process_document_def Let_def save_metadata_def update_embedding_status_def
      split: option.splits)

lemma process_document_returned:
  assumes "process_document e file dp = (Inr info, dp')"
  shows "\<exists>text pages.
           extract_text e (upload_filename file) (upload_content file) = Inr (text, pages)
         \<and> write_upload e (os_path_join (upload_dir dp) (new_uuid e @ ''_'' @ upload_filename file)) = None
         \<and> total_pages info = Some pages \<and> status info = ''processed''
         \<and> embedding_status info = ''completed'' \<and> error info = None"
  using assms
  by (auto simp: process_document_def Let_def split: option.splits sum.splits prod.splits)

lemma csv_upload_is_csv: "endswith (lower (upload_filename csv_upload)) ''.csv''"
  by code_simp

lemma example_ingest_run:
  "fst (process_document (example_ingest_env n) csv_upload empty_processor) =
     Inr \<lparr>doc_id = ''doc-1'', filename = ''Sales.CSV'', document_type = ''CSV'',
           upload_date = 0, total_pages = Some (max 1 (int n div 100)),
           status = ''processed'', embedding_status = ''completed'', error = None\<rparr>"
proof -
  have "extract_text (example_ingest_env n) (upload_filename csv_upload) (upload_content csv_upload)
          = Inr (''a,b'', max 1 (int n div 100))"
    using extract_text_csv [OF csv_upload_is_csv, of "example_ingest_env n" "upload_content csv_upload"
            "\<lparr>to_string = ''a,b'', len_df = n\<rparr>"]
    by (simp add: example_ingest_env_def csv_upload_def)
  then show ?thesis
    by (simp add: process_document_def Let_def example_ingest_env_def csv_upload_def
        empty_processor_def store_embeddings_def after_last_dot_def)
qed

subsection \<open>Page count of a CSV file\<close>

text \<open>
  Claim C7. For an upload whose lower-cased name ends in \<open>.csv\<close> and whose frame has \<open>n\<close>
  rows, the \<open>DocumentInfo\<close> that \<open>process_document\<close> returns, and the record it stores in
  the catalog once the upload is written, have \<open>total_pages = max(1, n // 100)\<close>: 2 for 250
  rows and 1 for no rows.
\<close>

theorem csv_total_pages:
  assumes csv: "endswith (lower (upload_filename file)) ''.csv''"
    and frame: "read_csv e (upload_content file) = Inr df"
  shows "(\<forall>info dp'. process_document e file dp = (Inr info, dp') \<longrightarrow>
            total_pages info = Some (max 1 (int (len_df df) div 100))
          \<and> (len_df df = 250 \<longrightarrow> total_pages info = Some 2)
          \<and> (len_df df = 0 \<longrightarrow> total_pages info = Some 1))
       \<and> (write_upload e (os_path_join (upload_dir dp) (new_uuid e @ ''_'' @ upload_filename file))
             = None \<longrightarrow>
            (\<exists>d. metadata (snd (process_document e file dp)) (new_uuid e) = Some d
                \<and> total_pages d = Some (max 1 (int (len_df df) div 100))))"
proof (intro conjI allI impI)
  fix info dp'
  assume run: "process_document e file dp = (Inr info, dp')"
  from process_document_returned [OF run]
  show pages: "total_pages info = Some (max 1 (int (len_df df) div 100))"
    by (auto simp: extract_text_csv [OF csv frame])
  show "total_pages info = Some 2" if "len_df df = 250"
    using pages that by simp
  show "total_pages info = Some 1" if "len_df df = 0"
    using pages that by simp
next
  assume "write_upload e (os_path_join (upload_dir dp) (new_uuid e @ ''_'' @ upload_filename file))
            = None"
  from process_document_extracted [OF this extract_text_csv [OF csv frame]]
  show "\<exists>d. metadata (snd (process_document e file dp)) (new_uuid e) = Some d
           \<and> total_pages d = Some (max 1 (int (len_df df) div 100))"
    by blast
qed

theorem csv_total_pages_witness:
  "endswith (lower (upload_filename csv_upload)) ''.csv''
   \<and> read_csv (example_ingest_env 250) (upload_content csv_upload)
       = Inr \<lparr>to_string = ''a,b'', len_df = 250\<rparr>
   \<and> fst (process_document (example_ingest_env 250) csv_upload empty_processor)
       = Inr \<lparr>doc_id = ''doc-1'', filename = ''Sales.CSV'', document_type = ''CSV'',
           upload_date = 0, total_pages = Some 2,
           status = ''processed'', embedding_status = ''completed'', error = None\<rparr>
   \<and> read_csv (example_ingest_env 0) (upload_content csv_upload)
       = Inr \<lparr>to_string = ''a,b'', len_df = 0\<rparr>
   \<and> fst (process_document (example_ingest_env 0) csv_upload empty_processor)
       = Inr \<lparr>doc_id = ''doc-1'', filename = ''Sales.CSV'', document_type = ''CSV'',
           upload_date = 0, total_pages = Some 1,
           status = ''processed'', embedding_status = ''completed'', error = None\<rparr>"
proof -
  have f250: "read_csv (example_ingest_env 250) (upload_content csv_upload)
       = Inr \<lparr>to_string = ''a,b'', len_df = 250\<rparr>"
    and f0: "read_csv (example_ingest_env 0) (upload_content csv_upload)
       = Inr \<lparr>to_string = ''a,b'', len_df = 0\<rparr>"
    by (simp_all add: example_ingest_env_def csv_upload_def)
  show ?thesis
    using csv_total_pages [OF csv_upload_is_csv f250, of empty_processor]
      csv_total_pages [OF csv_upload_is_csv f0, of empty_processor]
      example_ingest_run [of 250] example_ingest_run [of 0] csv_upload_is_csv f250 f0
    by simp
qed

subsection \<open>Failure of the embedding step\<close>

text \<open>
  Claim C2, as the code has it. When the embedding step fails after the text was extracted
  and the record stored, \<open>process_document\<close> raises \<open>Failed to create embeddings: ...\<close> and
  the catalog keeps the document's record with \<open>status\<close> \<open>processed\<close> and
  \<open>embedding_status\<close> \<open>failed\<close>; its \<open>error\<close> field is \<open>None\<close>, since no code sets it. The
  catalog file holds the same, and no other record is touched.
\<close>

theorem embedding_failure_keeps_failed_record:
  assumes stored: "write_upload e (os_path_join (upload_dir dp)
                      (new_uuid e @ ''_'' @ upload_filename file)) = None"
    and extracted: "extract_text e (upload_filename file) (upload_content file) = Inr (text, pages)"
    and catalog: "write_metadata e = None"
    and embedding: "store_embeddings e (processor_db_directory dp) (split_text e text)
                      (metadata_list (upload_filename file) (new_uuid e) (split_text e text)) = Some x"
  shows "\<exists>d dp'.
           process_document e file dp
             = (Inl (Exception (''Failed to create embeddings: '' @ str x)), dp')
         \<and> metadata dp' (new_uuid e) = Some d
         \<and> status d = ''processed'' \<and> embedding_status d = ''failed'' \<and> error d = None
         \<and> doc_id d = new_uuid e \<and> filename d = upload_filename file
         \<and> metadata_file dp' = metadata dp'
         \<and> (\<forall>k. k \<noteq> new_uuid e \<longrightarrow> metadata dp' k = metadata dp k)"
  using assms
  by (simp add: process_document_def Let_def save_metadata_def update_embedding_status_def)

theorem embedding_failure_keeps_failed_record_witness:
  "write_upload failing_index_env (os_path_join (upload_dir empty_processor)
       (new_uuid failing_index_env @ ''_'' @ upload_filename csv_upload)) = None
   \<and> extract_text failing_index_env (upload_filename csv_upload) (upload_content csv_upload)
       = Inr (''a,b'', 2)
   \<and> write_metadata failing_index_env = None
   \<and> store_embeddings failing_index_env (processor_db_directory empty_processor)
        (split_text failing_index_env ''a,b'')
        (metadata_list (upload_filename csv_upload) (new_uuid failing_index_env)
           (split_text failing_index_env ''a,b''))
       = Some (Exception ''connection refused'')
   \<and> fst (process_document failing_index_env csv_upload empty_processor)
       = Inl (Exception ''Failed to create embeddings: connection refused'')
   \<and> map_option embedding_status
        (metadata (snd (process_document failing_index_env csv_upload empty_processor))
           (new_uuid failing_index_env)) = Some ''failed''
   \<and> map_option error
        (metadata (snd (process_document failing_index_env csv_upload empty_processor))
           (new_uuid failing_index_env)) = Some None"
proof -
  have stored: "write_upload failing_index_env (os_path_join (upload_dir empty_processor)
       (new_uuid failing_index_env @ ''_'' @ upload_filename csv_upload)) = None"
    and catalog: "write_metadata failing_index_env = None"
    by (simp_all add: failing_index_env_def example_ingest_env_def)
  have extracted: "extract_text failing_index_env (upload_filename csv_upload)
                     (upload_content csv_upload) = Inr (''a,b'', 2)"
    using extract_text_csv [OF csv_upload_is_csv, of failing_index_env "upload_content csv_upload"
            "\<lparr>to_string = ''a,b'', len_df = 250\<rparr>"]
    by (simp add: failing_index_env_def example_ingest_env_def csv_upload_def)
  have embedding: "store_embeddings failing_index_env (processor_db_directory empty_processor)
        (split_text failing_index_env ''a,b'')
        (metadata_list (upload_filename csv_upload) (new_uuid failing_index_env)
           (split_text failing_index_env ''a,b''))
       = Some (Exception ''connection refused'')"
    by (simp add: store_embeddings_def failing_index_env_def example_ingest_env_def)
  from embedding_failure_keeps_failed_record [OF stored extracted catalog embedding]
  show ?thesis
    using stored extracted catalog embedding by auto
qed

text \<open>
  The claim as stated fails: after an index failure the record's \<open>error\<close> field is \<open>None\<close>,
  not a non-empty text.
\<close>

theorem failed_embedding_record_has_no_error:
  "fst (process_document failing_index_env csv_upload empty_processor)
     = Inl (Exception ''Failed to create embeddings: connection refused'')
   \<and> metadata (snd (process_document failing_index_env csv_upload empty_processor)) ''doc-1''
     = Some \<lparr>doc_id = ''doc-1'', filename = ''Sales.CSV'', document_type = ''CSV'',
           upload_date = 0, total_pages = Some 2,
           status = ''processed'', embedding_status = ''failed'', error = None\<rparr>"
proof -
  have "extract_text failing_index_env (upload_filename csv_upload) (upload_content csv_upload)
          = Inr (''a,b'', 2)"
    using extract_text_csv [OF csv_upload_is_csv, of failing_index_env "upload_content csv_upload"
            "\<lparr>to_string = ''a,b'', len_df = 250\<rparr>"]
    by (simp add: failing_index_env_def example_ingest_env_def csv_upload_def)
  then show ?thesis
    by (simp add: process_document_def Let_def failing_index_env_def example_ingest_env_def
        csv_upload_def empty_processor_def store_embeddings_def after_last_dot_def
        save_metadata_def update_embedding_status_def)
qed

section \<open>Properties of persistence\<close>

subsection \<open>A completed turn\<close>

lemma example_run_service:
  "conversations (service (get_streaming_response example_env ''hi'' None empty_service)) ''uuid-''
     = Some \<lparr>conv_id = ''uuid-'', conv_vectorstore = Chroma ''/srv/app/vector_db'',
             history = [HumanMessage ''hi'', AIMessage ''Paris''],
             messages = [\<lparr>response = ''Paris'', sources = Some [make_source example_doc],
                          conversation_id = Some ''uuid-'', user_message = ''hi''\<rparr>]\<rparr>"
  "conversations_dir (service (get_streaming_response example_env ''hi'' None empty_service))
     = [(''uuid-.json'', Truncated)]"
  by (simp_all add: get_streaming_response_def get_or_create_conversation_def known_conversation_def
      draw_uuid_def example_env_def empty_service_def save_conversation_def Let_def
      new_conversation_def)

text \<open>
  Claim C1 says that saving a session and loading all sessions gives back its history and
  messages, also for a session with a completed turn. The code does not do that: a chat
  call that completes leaves a \<open>HumanMessage\<close> and an \<open>AIMessage\<close> object in the history,
  \<open>json.dump\<close> raises on them after the file was opened for writing, and the loader then
  skips the file. Here the call completes, the session in memory has its turn, the file is
  not a JSON document and loading gives no session for the id.
\<close>

theorem completed_turn_is_not_reloaded:
  "raised (get_streaming_response example_env ''hi'' None empty_service) = None
   \<and> conversations (service (get_streaming_response example_env ''hi'' None empty_service)) ''uuid-''
     = Some \<lparr>conv_id = ''uuid-'', conv_vectorstore = Chroma ''/srv/app/vector_db'',
             history = [HumanMessage ''hi'', AIMessage ''Paris''],
             messages = [\<lparr>response = ''Paris'', sources = Some [make_source example_doc],
                          conversation_id = Some ''uuid-'', user_message = ''hi''\<rparr>]\<rparr>
   \<and> conversations_dir (service (get_streaming_response example_env ''hi'' None empty_service))
     = [(''uuid-.json'', Truncated)]
   \<and> load_conversations example_env ''/srv/app/vector_db''
        (conversations_dir (service (get_streaming_response example_env ''hi'' None empty_service)))
        ''uuid-'' = None"
proof -
  have "raised (get_streaming_response example_env ''hi'' None empty_service) = None"
    by (simp add: get_streaming_response_def get_or_create_conversation_def known_conversation_def
      draw_uuid_def example_env_def empty_service_def save_conversation_def Let_def
      new_conversation_def)
  moreover have "load_conversations example_env ''/srv/app/vector_db'' [(''uuid-.json'', Truncated)]
        ''uuid-'' = None"
    by (simp add: load_conversations_def listdir_def load_file_def endswith_def suffix_to_prefix)
  ultimately show ?thesis by (simp add: example_run_service)
qed

section \<open>Properties of the export paths\<close>

subsection \<open>The parent of an absolute directory\<close>

lemma str_split_nonempty: "str_split c s \<noteq> []"
  by (induction s) (auto split: list.splits)

lemma str_split_append:
  "str_split c (a @ c # b) = str_split c a @ str_split c b"
proof (induction a)
  case Nil
  then show ?case by simp
next
  case (Cons x a)
  then show ?case
    using str_split_nonempty [of c a] by (cases "str_split c a") auto
qed

lemma norm_step_no_dotdot:
  assumes "''..'' \<notin> set acc"
  shows "''..'' \<notin> set (norm_step True part acc)"
proof (cases "acc = []")
  case True
  then show ?thesis by (simp add: norm_step_def)
next
  case False
  then have "last acc \<in> set acc" by simp
  then have "last acc \<noteq> ''..''" using assms by metis
  then show ?thesis
    using assms False by (auto simp: norm_step_def dest: in_set_butlastD)
qed

lemma fold_norm_no_dotdot:
  assumes "''..'' \<notin> set acc"
  shows "''..'' \<notin> set (fold (norm_step True) parts acc)"
  using assms
proof (induction parts arbitrary: acc)
  case Nil
  then show ?case by simp
next
  case (Cons p parts)
  then show ?case using norm_step_no_dotdot [of acc p] by simp
qed

lemma norm_step_parent:
  assumes "''..'' \<notin> set acc"
  shows "norm_step True ''..'' acc = butlast acc"
proof (cases "acc = []")
  case True
  then show ?thesis by (simp add: norm_step_def)
next
  case False
  then have "last acc \<noteq> ''..''" using assms last_in_set by metis
  then show ?thesis using False by (simp add: norm_step_def)
qed

lemma normpath_parent:
  assumes "isabs d"
  shows "normpath (os_path_join d ''..'') = (True, butlast (snd (normpath d)))"
proof -
  have d: "d \<noteq> []" using assms by (simp add: isabs_def)
  let ?norm = "\<lambda>parts. fold (norm_step True) parts []"
  have clean: "''..'' \<notin> set (?norm parts)" for parts
    by (rule fold_norm_no_dotdot) simp
  show ?thesis
  proof (cases "last d = CHR ''/''")
    case True
    then have shape: "d = butlast d @ CHR ''/'' # []"
      using d by (metis append_butlast_last_id)
    have join: "os_path_join d ''..'' = butlast d @ CHR ''/'' # ''..''"
      using True d append_butlast_last_id [of d] by (simp add: os_path_join_def)
    have abs: "isabs (os_path_join d ''..'')"
      using assms d by (simp add: os_path_join_def True isabs_def)
    have "str_split CHR ''/'' d = str_split CHR ''/'' (butlast d) @ [[]]"
      using str_split_append [of "CHR ''/''" "butlast d" "[]"] shape by simp
    then have nd: "snd (normpath d) = ?norm (str_split CHR ''/'' (butlast d))"
      using assms by (simp add: normpath_def norm_step_def)
    have "str_split CHR ''/'' (os_path_join d ''..'') = str_split CHR ''/'' (butlast d) @ [''..'']"
      by (simp add: join str_split_append)
    then have "snd (normpath (os_path_join d ''..''))
                 = norm_step True ''..'' (?norm (str_split CHR ''/'' (butlast d)))"
      using abs by (simp add: normpath_def)
    then show ?thesis
      using abs nd norm_step_parent [OF clean] by (simp add: normpath_def)
  next
    case False
    have join: "os_path_join d ''..'' = d @ CHR ''/'' # ''..''"
      using False d by (simp add: os_path_join_def)
    have abs: "isabs (os_path_join d ''..'')"
      using assms d by (simp add: join isabs_def)
    have nd: "snd (normpath d) = ?norm (str_split CHR ''/'' d)"
      using assms by (simp add: normpath_def)
    have "str_split CHR ''/'' (os_path_join d ''..'') = str_split CHR ''/'' d @ [''..'']"
      by (simp add: join str_split_append)
    then have "snd (normpath (os_path_join d ''..''))
                 = norm_step True ''..'' (?norm (str_split CHR ''/'' d))"
      using abs by (simp add: normpath_def)
    then show ?thesis
      using abs nd norm_step_parent [OF clean] by (simp add: normpath_def)
  qed
qed

lemma not_prefix_butlast: "xs \<noteq> [] \<Longrightarrow> \<not> prefix xs (butlast xs)"
  using prefix_length_le [of xs "butlast xs"] by (cases xs) auto

lemma example_export_paths:
  "normpath (export_dir example_export) = (True, [''srv'', ''app'', ''exported_chats''])"
  "os_path_join (export_dir example_export) ''..'' = ''/srv/app/exported_chats/..''"
  "os_path_join (export_dir example_export) ''../vector_db/chroma.sqlite3''
     = ''/srv/app/exported_chats/../vector_db/chroma.sqlite3''"
  "normpath ''/srv/app/exported_chats/../vector_db/chroma.sqlite3''
     = (True, [''srv'', ''app'', ''vector_db'', ''chroma.sqlite3''])"
  by (simp_all add: example_export_def os_path_join_def normpath_def isabs_def norm_step_def)

subsection \<open>Download\<close>

text \<open>
  Claim C10. For every file name, \<open>get_export_path\<close> is \<open>os.path.join\<close> of the export
  directory and the name, with no check; \<open>download_file\<close> tests existence of that path and
  answers with the file at that path. For an absolute export directory other than the root,
  the name \<open>..\<close> gives a path that lies outside the export directory.
\<close>

theorem export_path_is_unchecked_join:
  "get_export_path es fname = os_path_join (export_dir es) fname
   \<and> download_file fs es fname =
       (if os_path_exists fs (os_path_join (export_dir es) fname)
        then Inr \<lparr>path = os_path_join (export_dir es) fname, download_name = fname,
                  media_type = ''application/octet-stream''\<rparr>
        else Inl (HTTPException 500 ''404: File not found''))
   \<and> (isabs (export_dir es) \<and> snd (normpath (export_dir es)) \<noteq> [] \<longrightarrow>
        \<not> inside (export_dir es) (get_export_path es ''..''))"
proof (intro conjI impI)
  show "get_export_path es fname = os_path_join (export_dir es) fname"
    by (simp add: get_export_path_def)
  show "download_file fs es fname =
       (if os_path_exists fs (os_path_join (export_dir es) fname)
        then Inr \<lparr>path = os_path_join (export_dir es) fname, download_name = fname,
                  media_type = ''application/octet-stream''\<rparr>
        else Inl (HTTPException 500 ''404: File not found''))"
    by (simp add: download_file_def get_export_path_def Let_def)
  assume a: "isabs (export_dir es) \<and> snd (normpath (export_dir es)) \<noteq> []"
  then show "\<not> inside (export_dir es) (get_export_path es ''..'')"
    using normpath_parent [of "export_dir es"] not_prefix_butlast [of "snd (normpath (export_dir es))"]
    by (simp add: inside_def get_export_path_def)
qed

theorem export_path_is_unchecked_join_witness:
  "isabs (export_dir example_export)
   \<and> snd (normpath (export_dir example_export)) = [''srv'', ''app'', ''exported_chats'']
   \<and> get_export_path example_export ''../vector_db/chroma.sqlite3''
       = ''/srv/app/exported_chats/../vector_db/chroma.sqlite3''
   \<and> \<not> inside (export_dir example_export) (get_export_path example_export ''..'')
   \<and> \<not> inside (export_dir example_export)
          (get_export_path example_export ''../vector_db/chroma.sqlite3'')
   \<and> download_file example_fs example_export ''../vector_db/chroma.sqlite3''
       = Inr \<lparr>path = ''/srv/app/exported_chats/../vector_db/chroma.sqlite3'',
               download_name = ''../vector_db/chroma.sqlite3'',
               media_type = ''application/octet-stream''\<rparr>"
proof -
  have abs: "isabs (export_dir example_export)"
    by (simp add: example_export_def isabs_def)
  have below: "snd (normpath (export_dir example_export)) = [''srv'', ''app'', ''exported_chats'']"
    by (simp add: example_export_paths)
  note claim = export_path_is_unchecked_join
        [of example_export "''../vector_db/chroma.sqlite3''" example_fs]
  have joined: "get_export_path example_export ''../vector_db/chroma.sqlite3''
       = ''/srv/app/exported_chats/../vector_db/chroma.sqlite3''"
    using claim by (simp add: example_export_paths)
  have parent: "\<not> inside (export_dir example_export) (get_export_path example_export ''..'')"
    using claim abs below by simp
  have outside: "\<not> inside (export_dir example_export)
          (get_export_path example_export ''../vector_db/chroma.sqlite3'')"
    by (simp add: joined inside_def example_export_paths)
  have served: "download_file example_fs example_export ''../vector_db/chroma.sqlite3''
       = Inr \<lparr>path = ''/srv/app/exported_chats/../vector_db/chroma.sqlite3'',
               download_name = ''../vector_db/chroma.sqlite3'',
               media_type = ''application/octet-stream''\<rparr>"
    using claim by (simp add: example_export_paths os_path_exists_def example_fs_def)
  show ?thesis
    using abs below joined parent outside served by (intro conjI)
qed

end
